theory Spec2Isabelle
  imports Complex_Main "HOL-Library.Sublist"
begin

section \<open>Python scripts as state transformers\<close>

text \<open>
  The repository is a tutorial book: a build configuration and notebooks whose code cells are
  straight-line Python scripts over an external finite-element library. A script is modelled
  as a function on a run state. The run state records what an observer of the script sees:
  the exception that stopped it (if any), the calls it made into external libraries, in
  order, and what it printed. Floating-point numbers are modelled as reals; no statement
  below depends on rounding.
\<close>

datatype py_error = AssertionError | ValueError | IndexError | NameError | TypeError | Unmodelled

datatype printed =
    Number_of_interations int
  | L2_error real
  | Error_max real

record run =
  raised :: "py_error option"
  calls :: "string list"
  stdout :: "printed list"

definition start :: run where
  "start = \<lparr>raised = None, calls = [], stdout = []\<rparr>"

text \<open>A statement runs only while no exception is pending.\<close>

definition exec :: "('a run_scheme \<Rightarrow> 'a run_scheme) \<Rightarrow> 'a run_scheme \<Rightarrow> 'a run_scheme" where
  "exec f s = (if raised s = None then f s else s)"

definition call :: "string \<Rightarrow> 'a run_scheme \<Rightarrow> 'a run_scheme" where
  "call name = exec (\<lambda>s. s\<lparr>calls := calls s @ [name]\<rparr>)"

text \<open>\<open>assert(b)\<close> and \<open>print(x)\<close>, where \<open>b\<close> and \<open>x\<close> are read from the variables.\<close>

definition py_assert :: "('a run_scheme \<Rightarrow> bool) \<Rightarrow> 'a run_scheme \<Rightarrow> 'a run_scheme" where
  "py_assert b = exec (\<lambda>s. if b s then s else s\<lparr>raised := Some AssertionError\<rparr>)"

definition py_print :: "('a run_scheme \<Rightarrow> printed) \<Rightarrow> 'a run_scheme \<Rightarrow> 'a run_scheme" where
  "py_print x = exec (\<lambda>s. s\<lparr>calls := calls s @ [''print''], stdout := stdout s @ [x s]\<rparr>)"

text \<open>
  \<open>v = rhs\<close> where evaluating the right-hand side may raise: the exception is recorded,
  or the value is stored.
\<close>

definition assign :: "('a run_scheme \<Rightarrow> py_error + 'b) \<Rightarrow> ('b \<Rightarrow> 'a run_scheme \<Rightarrow> 'a run_scheme)
    \<Rightarrow> 'a run_scheme \<Rightarrow> 'a run_scheme" where
  "assign rhs store =
     exec (\<lambda>s. case rhs s of Inl e \<Rightarrow> s\<lparr>raised := Some e\<rparr> | Inr v \<Rightarrow> store v s)"

text \<open>\<open>if c: stmt\<close> for a condition that does not depend on the variables.\<close>

definition py_if :: "bool \<Rightarrow> ('s \<Rightarrow> 's) \<Rightarrow> 's \<Rightarrow> 's" where
  "py_if c stmt s = (if c then stmt s else s)"

text \<open>The statements of a cell, run in order.\<close>

definition run_all :: "('s \<Rightarrow> 's) list \<Rightarrow> 's \<Rightarrow> 's" where
  "run_all stmts s = fold (\<lambda>g x. g x) stmts s"

text \<open>A run of consecutive library calls whose results the model does not track.\<close>

definition do_calls :: "string list \<Rightarrow> 'a run_scheme \<Rightarrow> 'a run_scheme" where
  "do_calls names = run_all (map call names)"

text \<open>
  \<open>emits g cs\<close>: the statement \<open>g\<close> does nothing when an exception is pending;
  otherwise it either completes, and has then made exactly the calls \<open>cs\<close>, or it
  raises, and has then made a prefix of them.
\<close>

definition emits :: "('a run_scheme \<Rightarrow> 'a run_scheme) \<Rightarrow> string list \<Rightarrow> bool" where
  "emits g cs =
     (\<forall>s. (raised s \<noteq> None \<longrightarrow> g s = s) \<and>
          (raised s = None \<longrightarrow>
             (if raised (g s) = None then calls (g s) = calls s @ cs
              else \<exists>xs. prefix xs cs \<and> calls (g s) = calls s @ xs)))"

section \<open>The nonlinear Poisson notebook\<close>

subsection \<open>Symbolic expressions and their evaluation on coordinate arrays\<close>

text \<open>
  The expressions the notebook builds with the form language: integer literals, the
  components \<open>x[i]\<close> of the spatial coordinate, sums, products, powers and the
  differential operators. Python's operators on such objects build the tree:
  \<open>a + b\<close> is a sum, \<open>a * b\<close> a product, \<open>a ** b\<close> a power and \<open>-a\<close> the
  product with \<open>-1\<close>.
\<close>

datatype ufl =
    IntValue int
  | Coord nat
  | Sum ufl ufl
  | Product ufl ufl
  | Power ufl ufl
  | Grad ufl
  | Div ufl

definition ufl_neg :: "ufl \<Rightarrow> ufl" where
  "ufl_neg e = Product (IntValue (- 1)) e"

text \<open>\<open>def q(u): return 1 + u**2\<close>\<close>

definition q :: "ufl \<Rightarrow> ufl" where
  "q u = Sum (IntValue 1) (Power u (IntValue 2))"

text \<open>\<open>u_ufl = 1 + x[0] + 2*x[1]\<close>, parsed as \<open>(1 + x[0]) + (2*x[1])\<close>.\<close>

definition u_ufl :: ufl where
  "u_ufl = Sum (Sum (IntValue 1) (Coord 0)) (Product (IntValue 2) (Coord 1))"

text \<open>\<open>f = - ufl.div(q(u_ufl)*ufl.grad(u_ufl))\<close>\<close>

definition f :: ufl where
  "f = ufl_neg (Div (Product (q u_ufl) (Grad u_ufl)))"

text \<open>
  The values Python computes py_if such an expression is evaluated on arrays: a scalar or a
  one-dimensional array. A binary operator broadcasts a scalar or a one-element array
  over the other operand and raises on arrays of different lengths.
\<close>

datatype ndarray = Scalar real | Array "real list"

definition np_binop :: "(real \<Rightarrow> real \<Rightarrow> real) \<Rightarrow> ndarray \<Rightarrow> ndarray \<Rightarrow> py_error + ndarray" where
  "np_binop g a b =
     (case (a, b) of
        (Scalar v, Scalar w) \<Rightarrow> Inr (Scalar (g v w))
      | (Scalar v, Array ws) \<Rightarrow> Inr (Array (map (g v) ws))
      | (Array vs, Scalar w) \<Rightarrow> Inr (Array (map (\<lambda>v. g v w) vs))
      | (Array vs, Array ws) \<Rightarrow>
          if length vs = length ws then Inr (Array (map2 g vs ws))
          else if length vs = 1 then Inr (Array (map (g (hd vs)) ws))
          else if length ws = 1 then Inr (Array (map (\<lambda>v. g v (hd ws)) vs))
          else Inl ValueError)"

text \<open>
  \<open>eval(str(e))\<close> inside \<open>lambda x: ...\<close>: the printed form of the expression is
  evaluated as Python source in the scope of the lambda, where the name \<open>x\<close> is the
  lambda's argument, a two-dimensional array given by its rows. \<open>x[i]\<close> is row \<open>i\<close>;
  the names \<open>grad\<close> and \<open>div\<close> are not bound in that scope. Powers are modelled for
  literal natural exponents only.
\<close>

fun py_eval_str :: "ufl \<Rightarrow> real list list \<Rightarrow> py_error + ndarray" where
  "py_eval_str (IntValue k) x = Inr (Scalar (of_int k))"
| "py_eval_str (Coord i) x = (if i < length x then Inr (Array (x ! i)) else Inl IndexError)"
| "py_eval_str (Sum a b) x =
     (case py_eval_str a x of Inl e \<Rightarrow> Inl e
      | Inr v \<Rightarrow> (case py_eval_str b x of Inl e \<Rightarrow> Inl e | Inr w \<Rightarrow> np_binop (+) v w))"
| "py_eval_str (Product a b) x =
     (case py_eval_str a x of Inl e \<Rightarrow> Inl e
      | Inr v \<Rightarrow> (case py_eval_str b x of Inl e \<Rightarrow> Inl e | Inr w \<Rightarrow> np_binop (*) v w))"
| "py_eval_str (Power a b) x =
     (case py_eval_str a x of Inl e \<Rightarrow> Inl e
      | Inr v \<Rightarrow>
         (case b of
            IntValue k \<Rightarrow>
              if 0 \<le> k then np_binop (\<lambda>r _. r ^ nat k) v (Scalar 0) else Inl Unmodelled
          | _ \<Rightarrow> Inl Unmodelled))"
| "py_eval_str (Grad a) x = Inl NameError"
| "py_eval_str (Div a) x = Inl NameError"

text \<open>\<open>u_exact = lambda x: eval(str(u_ufl))\<close>\<close>

definition u_exact :: "real list list \<Rightarrow> py_error + ndarray" where
  "u_exact x = py_eval_str u_ufl x"

text \<open>
  A finite-element function is modelled by its array of nodal values. For the nodal
  (Lagrange) spaces of the notebook, \<open>u.interpolate(g)\<close> calls \<open>g\<close> once on the array
  of the space's node coordinates (one row per coordinate, three rows) and stores the
  values; a scalar result is broadcast to every node.
\<close>

definition interpolate :: "real list list \<Rightarrow> (real list list \<Rightarrow> py_error + ndarray) \<Rightarrow> py_error + real list" where
  "interpolate X g =
     (case g X of
        Inl e \<Rightarrow> Inl e
      | Inr (Array vs) \<Rightarrow> Inr vs
      | Inr (Scalar c) \<Rightarrow> Inr (replicate (case X of [] \<Rightarrow> 0 | r # _ \<Rightarrow> length r) c))"

subsection \<open>The cells\<close>

text \<open>
  What the external library returns to the script: the rank of the process, the node
  coordinates of the spaces \<open>V\<close> and \<open>V_ex\<close>, the result of the Newton solve (the
  pair it returns and the nodal values it leaves in \<open>uh\<close>), the assembled integral of
  \<open>(uh - u_ex)**2\<close>, and the two reductions over all processes.
\<close>

record comm =
  comm_rank :: nat

record poisson_lib = comm +
  V_coordinates :: "real list list"
  V_ex_coordinates :: "real list list"
  solver_solve :: "real list \<Rightarrow> (int \<times> bool) \<times> real list"
  assemble_scalar_error :: "real list \<Rightarrow> real list \<Rightarrow> real"
  allreduce_SUM :: "real \<Rightarrow> real"
  allreduce_MAX :: "real \<Rightarrow> real"

record poisson = run +
  u_D :: "real list"
  uh :: "real list"
  n :: int
  converged :: bool
  u_ex :: "real list"
  error_L2 :: real
  error_max :: real

definition poisson_start :: poisson where
  "poisson_start = run.extend start
     \<lparr>u_D = [], uh = [], n = 0, converged = False, u_ex = [], error_L2 = 0, error_max = 0\<rparr>"

text \<open>
  \<open>numpy.max(numpy.abs(a - b))\<close> on two arrays of one space; \<open>max\<close> of an empty array
  raises. In cell 8 the variable \<open>error_max\<close> holds this local maximum until the
  reduction over the processes replaces it.
\<close>

definition np_max_abs_diff :: "real list \<Rightarrow> real list \<Rightarrow> py_error + real" where
  "np_max_abs_diff a b =
     (case np_binop (-) (Array a) (Array b) of
        Inl e \<Rightarrow> Inl e
      | Inr (Scalar d) \<Rightarrow> Inr \<bar>d\<bar>
      | Inr (Array ds) \<Rightarrow> (case ds of [] \<Rightarrow> Inl ValueError | d # ds' \<Rightarrow> Inr (fold max (map abs ds') \<bar>d\<bar>)))"

text \<open>
  Cell 1: imports, \<open>q\<close>, the mesh, the exact solution and the source term. Calls are
  recorded under the names the source writes, in Python's evaluation order (arguments
  before the call).
\<close>

definition poisson_cell1 :: "poisson \<Rightarrow> poisson" where
  "poisson_cell1 = do_calls
     [''mesh.create_unit_square'', ''ufl.SpatialCoordinate'', ''ufl.grad'', ''ufl.div'']"

text \<open>
  Cell 2:
  \<^verbatim>\<open>
  V = fem.FunctionSpace(domain, ("CG", 1))
  u_exact = lambda x: eval(str(u_ufl))
  u_D = fem.Function(V)
  u_D.interpolate(u_exact)
  fdim = domain.topology.dim - 1
  boundary_facets = mesh.locate_entities_boundary(domain, fdim, lambda x: ...)
  bc = fem.dirichletbc(u_D, fem.locate_dofs_topological(V, fdim, boundary_facets))
  \<close>
\<close>

definition poisson_cell2 :: "poisson_lib \<Rightarrow> poisson \<Rightarrow> poisson" where
  "poisson_cell2 E = run_all
     [do_calls [''fem.FunctionSpace'', ''fem.Function'', ''u_D.interpolate''],
      assign (\<lambda>s. interpolate (V_coordinates E) u_exact) (\<lambda>vs s. s\<lparr>u_D := vs\<rparr>),
      do_calls [''mesh.locate_entities_boundary'', ''fem.locate_dofs_topological'',
                ''fem.dirichletbc'']]"

text \<open>
  Cell 3: the unknown \<open>uh = fem.Function(V)\<close> (zero on the nodes of \<open>V\<close>), the test
  function and the residual form
  \<open>F = q(uh)*ufl.dot(ufl.grad(uh), ufl.grad(v))*ufl.dx - f*v*ufl.dx\<close>.
\<close>

definition poisson_cell3 :: "poisson \<Rightarrow> poisson" where
  "poisson_cell3 = run_all
     [call ''fem.Function'',
      exec (\<lambda>s. s\<lparr>uh := replicate (length (u_D s)) 0\<rparr>),
      do_calls [''ufl.TestFunction'', ''ufl.grad'', ''ufl.grad'', ''ufl.dot'']]"

text \<open>Cells 4 to 6: the nonlinear problem, the Newton solver and its linear solver's options.\<close>

definition poisson_cell4 :: "poisson \<Rightarrow> poisson" where
  "poisson_cell4 = do_calls [''fem.petsc.NonlinearProblem'']"

definition poisson_cell5 :: "poisson \<Rightarrow> poisson" where
  "poisson_cell5 = do_calls [''nls.petsc.NewtonSolver'']"

definition poisson_cell6 :: "poisson \<Rightarrow> poisson" where
  "poisson_cell6 = do_calls [''PETSc.Options'', ''ksp.getOptionsPrefix'', ''ksp.setFromOptions'']"

text \<open>
  Cell 7:
  \<^verbatim>\<open>
  log.set_log_level(log.LogLevel.INFO)
  n, converged = solver.solve(uh)
  assert(converged)
  print(f"Number of interations: {n:d}")
  \<close>
\<close>

definition poisson_cell7 :: "poisson_lib \<Rightarrow> poisson \<Rightarrow> poisson" where
  "poisson_cell7 E = run_all
     [do_calls [''log.set_log_level'', ''solver.solve''],
      exec (\<lambda>s. case solver_solve E (uh s) of
                   ((k, c), vs) \<Rightarrow> s\<lparr>n := k, converged := c, uh := vs\<rparr>),
      py_assert (\<lambda>s. converged s),
      py_print (\<lambda>s. Number_of_interations (n s))]"

text \<open>
  Cell 8:
  \<^verbatim>\<open>
  V_ex = fem.FunctionSpace(domain, ("CG", 2))
  u_ex = fem.Function(V_ex)
  u_ex.interpolate(u_exact)
  error_local = fem.assemble_scalar(fem.form((uh - u_ex)**2 * ufl.dx))
  error_L2 = numpy.sqrt(domain.comm.allreduce(error_local, op=MPI.SUM))
  if domain.comm.rank == 0:
      print(f"L2-error: {error_L2:.2e}")
  error_max = domain.comm.allreduce(numpy.max(numpy.abs(uh.x.array -u_D.x.array)), op=MPI.MAX)
  if domain.comm.rank == 0:
      print(f"Error_max: {error_max:.2e}")
  \<close>
\<close>

definition poisson_cell8 :: "poisson_lib \<Rightarrow> poisson \<Rightarrow> poisson" where
  "poisson_cell8 E = run_all
     [do_calls [''fem.FunctionSpace'', ''fem.Function'', ''u_ex.interpolate''],
      assign (\<lambda>s. interpolate (V_ex_coordinates E) u_exact) (\<lambda>vs s. s\<lparr>u_ex := vs\<rparr>),
      do_calls [''fem.form'', ''fem.assemble_scalar'', ''domain.comm.allreduce''],
      exec (\<lambda>s. s\<lparr>error_L2 := sqrt (allreduce_SUM E (assemble_scalar_error E (uh s) (u_ex s)))\<rparr>),
      py_if (comm_rank E = 0) (py_print (\<lambda>s. L2_error (error_L2 s))),
      assign (\<lambda>s. np_max_abs_diff (uh s) (u_D s)) (\<lambda>m s. s\<lparr>error_max := m\<rparr>),
      call ''domain.comm.allreduce'',
      exec (\<lambda>s. s\<lparr>error_max := allreduce_MAX E (error_max s)\<rparr>),
      py_if (comm_rank E = 0) (py_print (\<lambda>s. Error_max (error_max s)))]"

definition poisson_notebook :: "poisson_lib \<Rightarrow> poisson" where
  "poisson_notebook E = run_all
     [poisson_cell1, poisson_cell2 E, poisson_cell3, poisson_cell4, poisson_cell5,
      poisson_cell6, poisson_cell7 E, poisson_cell8 E] poisson_start"

section \<open>The Navier-Stokes notebook (flow past a cylinder)\<close>

subsection \<open>Parameters and the inlet velocity class\<close>

text \<open>
  \<^verbatim>\<open>
  L = 2.2
  H = 0.41
  gdim = 2
  model_rank = 0
  t = 0
  T = 8                       # Final time
  dt = 1/1600                 # Time step size
  num_steps = int(T/dt)
  \<close>
\<close>

definition L :: real where "L = 2.2"
definition H :: real where "H = 0.41"
definition gdim :: nat where "gdim = 2"
definition model_rank :: nat where "model_rank = 0"
definition T :: real where "T = 8"
definition dt :: real where "dt = 1 / 1600"
definition num_steps :: nat where "num_steps = nat \<lfloor>T / dt\<rfloor>"

text \<open>
  \<^verbatim>\<open>
  class InletVelocity():
      def __init__(self, t):
          self.t = t

      def __call__(self, x):
          values = np.zeros((gdim, x.shape[1]),dtype=PETSc.ScalarType)
          values[0] = 4 * 1.5 * np.sin(self.t * np.pi/8) * x[1] * (0.41 - x[1])/(0.41**2)
          return values
  \<close>
  The only class the tutorial code defines. Its state is the field \<open>t\<close>; the script
  assigns it from outside (\<open>inlet_velocity.t = t\<close>).
\<close>

record InletVelocity =
  t :: real

definition InletVelocity_init :: "real \<Rightarrow> InletVelocity" where
  "InletVelocity_init t0 = \<lparr>t = t0\<rparr>"

definition InletVelocity_call :: "InletVelocity \<Rightarrow> real list list \<Rightarrow> py_error + real list list" where
  "InletVelocity_call self x =
     (if length x < 2 then Inl IndexError
      else Inr (map (\<lambda>y. 4 * 1.5 * sin (t self * pi / 8) * y * (0.41 - y) / (0.41 ^ 2)) (x ! 1)
                # replicate (gdim - 1) (replicate (length (x ! 1)) 0)))"

text \<open>The objects of the class that a program can build: by the constructor and by assigning the field.\<close>

inductive InletVelocity_reachable :: "InletVelocity \<Rightarrow> bool" where
  constructed: "InletVelocity_reachable (InletVelocity_init t0)"
| assigned: "InletVelocity_reachable self \<Longrightarrow> InletVelocity_reachable (self\<lparr>t := t1\<rparr>)"

text \<open>
  Interpolation of a callable into a vector-valued nodal space: the callable returns one
  row per component, the function stores the components of each node next to each other.
\<close>

definition interpolate_rows :: "real list list \<Rightarrow> (real list list \<Rightarrow> py_error + real list list) \<Rightarrow> py_error + real list" where
  "interpolate_rows X g = (case g X of Inl e \<Rightarrow> Inl e | Inr rows \<Rightarrow> Inr (concat (transpose rows)))"

subsection \<open>What the libraries return to the script\<close>

text \<open>
  The geometry kernel's answers (the entities of dimension \<open>gdim\<close>, the boundary curves
  and their centres of mass), the node coordinates of the velocity space and the number
  of pressure unknowns, the three linear solves of a time step (each returns the solution
  it writes into its output vector and the solver's convergence reason, as functions of
  the coefficient functions of the forms; vectors are modelled by their owned entries),
  the drag and lift integrals of this process, the cells of this process that contain the
  two probe points, point evaluation of the pressure, what the other processes
  contribute to the four gathers of time step \<open>i\<close> (ranks \<open>1, 2, ...\<close> in order), and
  whether the directory \<open>figures\<close> exists.
\<close>

record ns_lib = comm +
  getEntities :: "(int \<times> int) list"
  getBoundary :: "(int \<times> int) list"
  getCenterOfMass :: "int \<Rightarrow> int \<Rightarrow> real \<times> real \<times> real"
  V_dof_coordinates :: "real list list"
  Q_ndofs :: nat
  solver1_solve :: "real list \<Rightarrow> real list \<Rightarrow> real list \<Rightarrow> real list \<Rightarrow> real list \<times> int"
  solver2_solve :: "real list \<Rightarrow> real list \<times> int"
  solver3_solve :: "real list \<Rightarrow> real list \<Rightarrow> real list \<times> int"
  assemble_scalar_drag :: "real list \<Rightarrow> real list \<Rightarrow> real"
  assemble_scalar_lift :: "real list \<Rightarrow> real list \<Rightarrow> real"
  front_cells :: "nat list"
  back_cells :: "nat list"
  p_eval :: "real list \<Rightarrow> nat \<Rightarrow> nat \<Rightarrow> real"
  others_drag :: "nat \<Rightarrow> real list"
  others_lift :: "nat \<Rightarrow> real list"
  others_p_front :: "nat \<Rightarrow> real option list"
  others_p_back :: "nat \<Rightarrow> real option list"
  figures_exists :: bool

text \<open>
  The script's variables. \<open>t_now\<close> is the script's variable \<open>t\<close> (the name \<open>t\<close> is
  the field of the class above); \<open>u_cur\<close> and \<open>p_cur\<close> are the script's \<open>u_\<close> and
  \<open>p_\<close>, the velocity and the pressure of the current time step. The arrays \<open>C_D\<close>, \<open>C_L\<close>, \<open>t_u\<close>, \<open>t_p\<close> and
  \<open>p_diff\<close> are bound on rank 0 only; on other ranks the script never touches them and
  the fields stay empty.
\<close>

record ns = run +
  volumes :: "(int \<times> int) list"
  inflow :: "int list"
  outflow :: "int list"
  walls :: "int list"
  obstacle :: "int list"
  t_now :: real
  inlet_velocity :: InletVelocity
  u_inlet :: "real list"
  u_cur :: "real list"
  u_s :: "real list"
  u_n :: "real list"
  u_n1 :: "real list"
  p_cur :: "real list"
  phi :: "real list"
  C_D :: "real list"
  C_L :: "real list"
  t_u :: "real list"
  t_p :: "real list"
  p_diff :: "real list"
  drag_coeff :: "real list option"
  lift_coeff :: "real list option"
  p_front :: "real option list option"
  p_back :: "real option list option"

definition ns_start :: ns where
  "ns_start = run.extend start
     \<lparr>volumes = [], inflow = [], outflow = [], walls = [], obstacle = [], t_now = 0,
      inlet_velocity = InletVelocity_init 0, u_inlet = [], u_cur = [], u_s = [], u_n = [],
      u_n1 = [], p_cur = [], phi = [], C_D = [], C_L = [], t_u = [], t_p = [], p_diff = [],
      drag_coeff = None, lift_coeff = None, p_front = None, p_back = None\<rparr>"

subsection \<open>Mesh generation (cells 1 to 7)\<close>

definition geometry_calls :: "string list" where
  "geometry_calls =
    [''gmsh.model.occ.addRectangle'', ''gmsh.model.occ.addDisk'']"

definition ns_cell1 :: "ns_lib \<Rightarrow> ns \<Rightarrow> ns" where
  "ns_cell1 E = run_all
     [call ''gmsh.initialize'',
      py_if (comm_rank E = model_rank)
        (do_calls geometry_calls)]"

definition cut_calls :: "string list" where
  "cut_calls =
    [''gmsh.model.occ.cut'', ''gmsh.model.occ.synchronize'']"

definition ns_cell2 :: "ns_lib \<Rightarrow> ns \<Rightarrow> ns" where
  "ns_cell2 E =
     py_if (comm_rank E = model_rank)
       (do_calls cut_calls)"

text \<open>
  Cell 3:
  \<^verbatim>\<open>
  fluid_marker = 1
  if mesh_comm.rank == model_rank:
      volumes = gmsh.model.getEntities(dim=gdim)
      assert(len(volumes) == 1)
      gmsh.model.addPhysicalGroup(volumes[0][0], [volumes[0][1]], fluid_marker)
      gmsh.model.setPhysicalName(volumes[0][0], fluid_marker, "Fluid")
  \<close>
\<close>

definition fluid_marker_calls :: "string list" where
  "fluid_marker_calls =
    [''gmsh.model.addPhysicalGroup'', ''gmsh.model.setPhysicalName'']"

definition ns_cell3 :: "ns_lib \<Rightarrow> ns \<Rightarrow> ns" where
  "ns_cell3 E =
     py_if (comm_rank E = model_rank)
       (run_all
         [call ''gmsh.model.getEntities'',
          exec (\<lambda>s. s\<lparr>volumes := getEntities E\<rparr>),
          py_assert (\<lambda>s. length (volumes s) = 1),
          do_calls fluid_marker_calls])"

text \<open>\<open>np.allclose(a, b)\<close> with its default tolerances: \<open>|a - b| <= atol + rtol * |b|\<close> in every component.\<close>

definition np_allclose :: "real \<times> real \<times> real \<Rightarrow> real \<times> real \<times> real \<Rightarrow> bool" where
  "np_allclose a b =
     (case (a, b) of ((a0, a1, a2), (b0, b1, b2)) \<Rightarrow>
        \<bar>a0 - b0\<bar> \<le> 1 / 10 ^ 8 + 1 / 10 ^ 5 * \<bar>b0\<bar> \<and>
        \<bar>a1 - b1\<bar> \<le> 1 / 10 ^ 8 + 1 / 10 ^ 5 * \<bar>b1\<bar> \<and>
        \<bar>a2 - b2\<bar> \<le> 1 / 10 ^ 8 + 1 / 10 ^ 5 * \<bar>b2\<bar>)"

text \<open>
  The body of the loop of cell 4:
  \<^verbatim>\<open>
  center_of_mass = gmsh.model.occ.getCenterOfMass(boundary[0], boundary[1])
  if np.allclose(center_of_mass, [0, H/2, 0]):
      inflow.append(boundary[1])
  elif np.allclose(center_of_mass, [L, H/2, 0]):
      outflow.append(boundary[1])
  elif np.allclose(center_of_mass, [L/2, H, 0]) or np.allclose(center_of_mass, [L/2, 0, 0]):
      walls.append(boundary[1])
  else:
      obstacle.append(boundary[1])
  \<close>
\<close>

definition tag_boundary :: "ns_lib \<Rightarrow> int \<times> int \<Rightarrow> ns \<Rightarrow> ns" where
  "tag_boundary E boundary = run_all
     [call ''gmsh.model.occ.getCenterOfMass'',
      exec (\<lambda>s.
        let center_of_mass = getCenterOfMass E (fst boundary) (snd boundary) in
        if np_allclose center_of_mass (0, H / 2, 0)
        then s\<lparr>inflow := inflow s @ [snd boundary]\<rparr>
        else if np_allclose center_of_mass (L, H / 2, 0)
        then s\<lparr>outflow := outflow s @ [snd boundary]\<rparr>
        else if np_allclose center_of_mass (L / 2, H, 0) \<or> np_allclose center_of_mass (L / 2, 0, 0)
        then s\<lparr>walls := walls s @ [snd boundary]\<rparr>
        else s\<lparr>obstacle := obstacle s @ [snd boundary]\<rparr>)]"

definition boundary_marker_calls :: "string list" where
  "boundary_marker_calls =
    [''gmsh.model.addPhysicalGroup'', ''gmsh.model.setPhysicalName'',
     ''gmsh.model.addPhysicalGroup'', ''gmsh.model.setPhysicalName'',
     ''gmsh.model.addPhysicalGroup'', ''gmsh.model.setPhysicalName'',
     ''gmsh.model.addPhysicalGroup'', ''gmsh.model.setPhysicalName'']"

definition ns_cell4 :: "ns_lib \<Rightarrow> ns \<Rightarrow> ns" where
  "ns_cell4 E = run_all
     [exec (\<lambda>s. s\<lparr>inflow := [], outflow := [], walls := [], obstacle := []\<rparr>),
      py_if (comm_rank E = model_rank)
        (run_all
          [call ''gmsh.model.getBoundary'',
           run_all (map (tag_boundary E) (getBoundary E)),
           do_calls boundary_marker_calls])]"

definition mesh_field_calls :: "string list" where
  "mesh_field_calls =
    [''gmsh.model.mesh.field.add'', ''gmsh.model.mesh.field.setNumbers'',
     ''gmsh.model.mesh.field.add'', ''gmsh.model.mesh.field.setNumber'',
     ''gmsh.model.mesh.field.setNumber'', ''gmsh.model.mesh.field.setNumber'',
     ''gmsh.model.mesh.field.setNumber'', ''gmsh.model.mesh.field.setNumber'',
     ''gmsh.model.mesh.field.add'', ''gmsh.model.mesh.field.setNumbers'',
     ''gmsh.model.mesh.field.setAsBackgroundMesh'']"

definition ns_cell5 :: "ns_lib \<Rightarrow> ns \<Rightarrow> ns" where
  "ns_cell5 E =
     py_if (comm_rank E = model_rank)
       (do_calls mesh_field_calls)"

definition mesh_generate_calls :: "string list" where
  "mesh_generate_calls =
    [''gmsh.option.setNumber'', ''gmsh.option.setNumber'', ''gmsh.option.setNumber'',
     ''gmsh.option.setNumber'', ''gmsh.model.mesh.generate'', ''gmsh.model.mesh.setOrder'',
     ''gmsh.model.mesh.optimize'']"

definition ns_cell6 :: "ns_lib \<Rightarrow> ns \<Rightarrow> ns" where
  "ns_cell6 E =
     py_if (comm_rank E = model_rank)
       (do_calls mesh_generate_calls)"

definition ns_cell7 :: "ns \<Rightarrow> ns" where
  "ns_cell7 = do_calls [''gmshio.model_to_mesh'']"

subsection \<open>Parameters, function spaces and boundary conditions (cells 8 and 9)\<close>

definition parameter_calls :: "string list" where
  "parameter_calls =
    [''Constant'', ''Constant'', ''Constant'']"

definition ns_cell8 :: "ns \<Rightarrow> ns" where
  "ns_cell8 = run_all
     [exec (\<lambda>s. s\<lparr>t_now := 0\<rparr>),
      do_calls parameter_calls]"

definition V_ndofs :: "ns_lib \<Rightarrow> nat" where
  "V_ndofs E = gdim * (case V_dof_coordinates E of [] \<Rightarrow> 0 | row # _ \<Rightarrow> length row)"

text \<open>\<open>u_inlet.interpolate(inlet_velocity)\<close>\<close>

definition interpolate_inlet :: "ns_lib \<Rightarrow> ns \<Rightarrow> ns" where
  "interpolate_inlet E = run_all
     [call ''u_inlet.interpolate'',
      assign (\<lambda>s. interpolate_rows (V_dof_coordinates E) (InletVelocity_call (inlet_velocity s)))
        (\<lambda>vs s. s\<lparr>u_inlet := vs\<rparr>)]"

definition function_space_calls :: "string list" where
  "function_space_calls =
    [''mesh.ufl_cell'', ''VectorElement'', ''mesh.ufl_cell'', ''FiniteElement'',
     ''FunctionSpace'', ''FunctionSpace'', ''Function'']"

definition boundary_condition_calls :: "string list" where
  "boundary_condition_calls =
    [''ft.find'', ''locate_dofs_topological'', ''dirichletbc'', ''ft.find'',
     ''locate_dofs_topological'', ''dirichletbc'', ''ft.find'', ''locate_dofs_topological'',
     ''dirichletbc'', ''ft.find'', ''locate_dofs_topological'', ''dirichletbc'']"

definition ns_cell9 :: "ns_lib \<Rightarrow> ns \<Rightarrow> ns" where
  "ns_cell9 E = run_all
     [do_calls function_space_calls,
      exec (\<lambda>s. s\<lparr>u_inlet := replicate (V_ndofs E) 0\<rparr>),
      exec (\<lambda>s. s\<lparr>inlet_velocity := InletVelocity_init (t_now s)\<rparr>),
      interpolate_inlet E,
      do_calls boundary_condition_calls]"

subsection \<open>Variational forms and solvers (cells 10 to 14)\<close>

definition velocity_function_calls :: "string list" where
  "velocity_function_calls =
    [''TrialFunction'', ''TestFunction'', ''Function'', ''Function'', ''Function'',
     ''Function'']"

definition pressure_function_calls :: "string list" where
  "pressure_function_calls =
    [''TrialFunction'', ''TestFunction'', ''Function'', ''Function'']"

definition ns_cell10 :: "ns_lib \<Rightarrow> ns \<Rightarrow> ns" where
  "ns_cell10 E = run_all
     [do_calls velocity_function_calls,
      exec (\<lambda>s. s\<lparr>u_cur := replicate (V_ndofs E) 0, u_s := replicate (V_ndofs E) 0,
                   u_n := replicate (V_ndofs E) 0, u_n1 := replicate (V_ndofs E) 0\<rparr>),
      do_calls pressure_function_calls,
      exec (\<lambda>s. s\<lparr>p_cur := replicate (Q_ndofs E) 0, phi := replicate (Q_ndofs E) 0\<rparr>)]"

definition form1_calls :: "string list" where
  "form1_calls =
    [''Constant'', ''dot'', ''nabla_grad'', ''dot'', ''inner'', ''grad'', ''grad'', ''inner'',
     ''div'', ''dot'', ''dot'', ''lhs'', ''form'', ''rhs'', ''form'', ''create_matrix'',
     ''create_vector'']"

definition ns_cell11 :: "ns \<Rightarrow> ns" where
  "ns_cell11 = do_calls form1_calls"

definition form2_calls :: "string list" where
  "form2_calls =
    [''grad'', ''grad'', ''dot'', ''form'', ''div'', ''dot'', ''form'', ''assemble_matrix'',
     ''A2.assemble'', ''create_vector'']"

definition ns_cell12 :: "ns \<Rightarrow> ns" where
  "ns_cell12 = do_calls form2_calls"

definition form3_calls :: "string list" where
  "form3_calls =
    [''dot'', ''form'', ''dot'', ''nabla_grad'', ''dot'', ''form'', ''assemble_matrix'',
     ''A3.assemble'', ''create_vector'']"

definition ns_cell13 :: "ns \<Rightarrow> ns" where
  "ns_cell13 = do_calls form3_calls"

definition solver_setup_calls :: "string list" where
  "solver_setup_calls =
    [''PETSc.KSP'', ''PETSc.KSP().create'', ''solver1.setOperators'', ''solver1.setType'',
     ''solver1.getPC'', ''pc1.setType'', ''PETSc.KSP'', ''PETSc.KSP().create'',
     ''solver2.setOperators'', ''solver2.setType'', ''solver2.getPC'', ''pc2.setType'',
     ''pc2.setHYPREType'', ''PETSc.KSP'', ''PETSc.KSP().create'', ''solver3.setOperators'',
     ''solver3.setType'', ''solver3.getPC'', ''pc3.setType'']"

definition ns_cell14 :: "ns \<Rightarrow> ns" where
  "ns_cell14 = do_calls solver_setup_calls"

subsection \<open>Drag, lift and pressure probes (cells 15 and 16)\<close>

text \<open>
  \<^verbatim>\<open>
  if mesh.comm.rank == 0:
      C_D = np.zeros(num_steps, dtype=PETSc.ScalarType)
      C_L = np.zeros(num_steps, dtype=PETSc.ScalarType)
      t_u = np.zeros(num_steps, dtype=np.float64)
      t_p = np.zeros(num_steps, dtype=np.float64)
  \<close>
  The number of time steps is a parameter \<open>steps\<close> of the model; the notebook runs it
  with \<open>num_steps\<close>.
\<close>

definition drag_lift_form_calls :: "string list" where
  "drag_lift_form_calls =
    [''FacetNormal'', ''Measure'', ''as_vector'', ''inner'', ''grad'', ''inner'', ''form'',
     ''grad'', ''inner'', ''form'']"

definition ns_cell15 :: "ns_lib \<Rightarrow> nat \<Rightarrow> ns \<Rightarrow> ns" where
  "ns_cell15 E steps = run_all
     [do_calls drag_lift_form_calls,
      py_if (comm_rank E = 0)
        (exec (\<lambda>s. s\<lparr>C_D := replicate steps 0, C_L := replicate steps 0,
                      t_u := replicate steps 0, t_p := replicate steps 0\<rparr>))]"

definition probe_calls :: "string list" where
  "probe_calls =
    [''BoundingBoxTree'', ''compute_collisions'', ''compute_colliding_cells'',
     ''colliding_cells.links'', ''colliding_cells.links'']"

definition ns_cell16 :: "ns_lib \<Rightarrow> nat \<Rightarrow> ns \<Rightarrow> ns" where
  "ns_cell16 E steps = run_all
     [do_calls probe_calls,
      py_if (comm_rank E = 0) (exec (\<lambda>s. s\<lparr>p_diff := replicate steps 0\<rparr>))]"

subsection \<open>The time loop (cell 17)\<close>

text \<open>
  \<^verbatim>\<open>
  progress.update(1)
  # Update current time step
  t += dt
  # Update inlet velocity
  inlet_velocity.t = t
  u_inlet.interpolate(inlet_velocity)
  \<close>
\<close>

definition advance_time :: "ns \<Rightarrow> ns" where
  "advance_time = run_all
     [call ''progress.update'',
      exec (\<lambda>s. s\<lparr>t_now := t_now s + dt\<rparr>)]"

definition update_inlet :: "ns_lib \<Rightarrow> ns \<Rightarrow> ns" where
  "update_inlet E = run_all
     [exec (\<lambda>s. s\<lparr>inlet_velocity := (inlet_velocity s)\<lparr>t := t_now s\<rparr>\<rparr>),
      interpolate_inlet E]"

text \<open>
  \<^verbatim>\<open>
  # Step 1: Tentative velocity step
  A1.zeroEntries()
  assemble_matrix(A1, a1, bcs=bcu)
  A1.assemble()
  with b1.localForm() as loc:
      loc.set(0)
  assemble_vector(b1, L1)
  apply_lifting(b1, [a1], [bcu])
  b1.ghostUpdate(addv=PETSc.InsertMode.ADD_VALUES, mode=PETSc.ScatterMode.REVERSE)
  set_bc(b1, bcu)
  solver1.solve(b1, u_s.vector)
  u_s.x.scatter_forward()
  \<close>
  The forms \<open>a1\<close> and \<open>L1\<close> read \<open>u_n\<close>, \<open>u_n1\<close> and \<open>p_cur\<close>; the boundary
  conditions read \<open>u_inlet\<close>.
\<close>

definition step1 :: "ns_lib \<Rightarrow> ns \<Rightarrow> ns" where
  "step1 E = run_all
     [do_calls [''A1.zeroEntries'', ''assemble_matrix'', ''A1.assemble'', ''b1.localForm'',
                ''loc.set'', ''assemble_vector'', ''apply_lifting'', ''b1.ghostUpdate'',
                ''set_bc'', ''solver1.solve''],
      exec (\<lambda>s. s\<lparr>u_s := fst (solver1_solve E (u_n s) (u_n1 s) (p_cur s) (u_inlet s))\<rparr>),
      call ''u_s.x.scatter_forward'']"

text \<open>
  \<^verbatim>\<open>
  # Step 2: Pressure corrrection step
  with b2.localForm() as loc:
      loc.set(0)
  assemble_vector(b2, L2)
  apply_lifting(b2, [a2], [bcp])
  b2.ghostUpdate(addv=PETSc.InsertMode.ADD_VALUES, mode=PETSc.ScatterMode.REVERSE)
  set_bc(b2, bcp)
  solver2.solve(b2, phi.vector)
  phi.x.scatter_forward()

  p_.vector.axpy(1, phi.vector)
  p_.x.scatter_forward()
  \<close>
  \<open>y.axpy(alpha, x)\<close> is \<open>y = y + alpha * x\<close> on two vectors of one space.
\<close>

definition axpy :: "real \<Rightarrow> real list \<Rightarrow> real list \<Rightarrow> real list" where
  "axpy alpha x y = map2 (\<lambda>yi xi. yi + alpha * xi) y x"

definition step2 :: "ns_lib \<Rightarrow> ns \<Rightarrow> ns" where
  "step2 E = run_all
     [do_calls [''b2.localForm'', ''loc.set'', ''assemble_vector'', ''apply_lifting'',
                ''b2.ghostUpdate'', ''set_bc'', ''solver2.solve''],
      exec (\<lambda>s. s\<lparr>phi := fst (solver2_solve E (u_s s))\<rparr>),
      do_calls [''phi.x.scatter_forward'', ''p_.vector.axpy''],
      exec (\<lambda>s. s\<lparr>p_cur := axpy 1 (phi s) (p_cur s)\<rparr>),
      call ''p_.x.scatter_forward'']"

text \<open>
  \<^verbatim>\<open>
  # Step 3: Velocity correction step
  with b3.localForm() as loc:
      loc.set(0)
  assemble_vector(b3, L3)
  b3.ghostUpdate(addv=PETSc.InsertMode.ADD_VALUES, mode=PETSc.ScatterMode.REVERSE)
  solver3.solve(b3, u_.vector)
  u_.x.scatter_forward()
  \<close>
\<close>

definition step3 :: "ns_lib \<Rightarrow> ns \<Rightarrow> ns" where
  "step3 E = run_all
     [do_calls [''b3.localForm'', ''loc.set'', ''assemble_vector'', ''b3.ghostUpdate'',
                ''solver3.solve''],
      exec (\<lambda>s. s\<lparr>u_cur := fst (solver3_solve E (u_s s) (phi s))\<rparr>),
      call ''u_.x.scatter_forward'']"

text \<open>
  \<^verbatim>\<open>
  # Write solutions to file
  vtx_u.write(t)
  vtx_p.write(t)

  # Update variable with solution form this time step
  with u_.vector.localForm() as loc_, u_n.vector.localForm() as loc_n, u_n1.vector.localForm() as loc_n1:
      loc_n.copy(loc_n1)
      loc_.copy(loc_n)
  \<close>
  \<open>x.copy(y)\<close> copies the entries of \<open>x\<close> into \<open>y\<close>.
\<close>

definition write_solutions :: "ns \<Rightarrow> ns" where
  "write_solutions = do_calls [''vtx_u.write'', ''vtx_p.write'']"

definition update_history :: "ns \<Rightarrow> ns" where
  "update_history = run_all
     [do_calls [''u_.vector.localForm'', ''u_n.vector.localForm'', ''u_n1.vector.localForm'',
                ''loc_n.copy''],
      exec (\<lambda>s. s\<lparr>u_n1 := u_n s\<rparr>),
      call ''loc_.copy'',
      exec (\<lambda>s. s\<lparr>u_n := u_cur s\<rparr>)]"

text \<open>
  \<open>mesh.comm.gather(v, root=0)\<close>: on rank 0 the list of the values of all ranks, in
  rank order (its own first); \<open>None\<close> on every other rank.
\<close>

definition gather :: "ns_lib \<Rightarrow> 'a \<Rightarrow> 'a list \<Rightarrow> 'a list option" where
  "gather E v others = (if comm_rank E = 0 then Some (v # others) else None)"

text \<open>Python's \<open>sum\<close>: from 0, left to right.\<close>

definition py_sum :: "real list \<Rightarrow> real" where
  "py_sum xs = foldl (+) 0 xs"

text \<open>\<open>a[i] = v\<close> on an array: an index out of range raises.\<close>

definition np_set :: "nat \<Rightarrow> real \<Rightarrow> real list \<Rightarrow> py_error + real list" where
  "np_set i v a = (if i < length a then Inr (a[i := v]) else Inl IndexError)"

text \<open>
  \<^verbatim>\<open>
  for pressure in p_front:
      if pressure is not None:
          p_diff[i] = pressure[0]
          break
  for pressure in p_back:
      if pressure is not None:
          p_diff[i] -= pressure[0]
          break
  \<close>
  The pressure is scalar: a probe value is an array of one entry, modelled by that entry.
\<close>

fun store_front :: "nat \<Rightarrow> real option list \<Rightarrow> real list \<Rightarrow> py_error + real list" where
  "store_front i [] a = Inr a"
| "store_front i (None # ps) a = store_front i ps a"
| "store_front i (Some pressure # ps) a = np_set i pressure a"

fun subtract_back :: "nat \<Rightarrow> real option list \<Rightarrow> real list \<Rightarrow> py_error + real list" where
  "subtract_back i [] a = Inr a"
| "subtract_back i (None # ps) a = subtract_back i ps a"
| "subtract_back i (Some pressure # ps) a =
     (if i < length a then np_set i (a ! i - pressure) a else Inl IndexError)"

text \<open>
  \<^verbatim>\<open>
  drag_coeff = mesh.comm.gather(assemble_scalar(drag), root=0)
  lift_coeff = mesh.comm.gather(assemble_scalar(lift), root=0)
  p_front = None
  if len(front_cells) > 0:
      p_front = p_.eval(points[0], front_cells[:1])
  p_front = mesh.comm.gather(p_front, root=0)
  p_back = None
  if len(back_cells) > 0:
      p_back = p_.eval(points[1], back_cells[:1])
  p_back = mesh.comm.gather(p_back, root=0)
  \<close>
\<close>

definition local_probe :: "ns_lib \<Rightarrow> nat \<Rightarrow> nat list \<Rightarrow> real list \<Rightarrow> real option" where
  "local_probe E point cells p =
     (case cells of [] \<Rightarrow> None | c # _ \<Rightarrow> Some (p_eval E p point c))"

definition gather_quantities :: "ns_lib \<Rightarrow> nat \<Rightarrow> ns \<Rightarrow> ns" where
  "gather_quantities E i = run_all
     [do_calls [''assemble_scalar'', ''mesh.comm.gather''],
      exec (\<lambda>s. s\<lparr>drag_coeff := gather E (assemble_scalar_drag E (u_cur s) (p_cur s)) (others_drag E i)\<rparr>),
      do_calls [''assemble_scalar'', ''mesh.comm.gather''],
      exec (\<lambda>s. s\<lparr>lift_coeff := gather E (assemble_scalar_lift E (u_cur s) (p_cur s)) (others_lift E i)\<rparr>),
      py_if (0 < length (front_cells E)) (call ''p_.eval''),
      call ''mesh.comm.gather'',
      exec (\<lambda>s. s\<lparr>p_front := gather E (local_probe E 0 (front_cells E) (p_cur s)) (others_p_front E i)\<rparr>),
      py_if (0 < length (back_cells E)) (call ''p_.eval''),
      call ''mesh.comm.gather'',
      exec (\<lambda>s. s\<lparr>p_back := gather E (local_probe E 1 (back_cells E) (p_cur s)) (others_p_back E i)\<rparr>)]"

text \<open>
  \<^verbatim>\<open>
  if mesh.comm.rank == 0:
      t_u[i] = t
      t_p[i] = t - dt / 2
      C_D[i] = sum(drag_coeff)
      C_L[i] = sum(lift_coeff)
      # Choose first pressure that is found from the different processors
      for pressure in p_front: ...
      for pressure in p_back: ...
  \<close>
  Iterating over \<open>None\<close> raises \<open>TypeError\<close>.
\<close>

definition iterate :: "'a list option \<Rightarrow> py_error + 'a list" where
  "iterate xs = (case xs of None \<Rightarrow> Inl TypeError | Some ys \<Rightarrow> Inr ys)"

definition record_quantities :: "ns_lib \<Rightarrow> nat \<Rightarrow> ns \<Rightarrow> ns" where
  "record_quantities E i =
     py_if (comm_rank E = 0)
       (run_all
        [assign (\<lambda>s. np_set i (t_now s) (t_u s)) (\<lambda>a s. s\<lparr>t_u := a\<rparr>),
         assign (\<lambda>s. np_set i (t_now s - dt / 2) (t_p s)) (\<lambda>a s. s\<lparr>t_p := a\<rparr>),
         assign (\<lambda>s. case iterate (drag_coeff s) of Inl e \<Rightarrow> Inl e
                      | Inr xs \<Rightarrow> np_set i (py_sum xs) (C_D s)) (\<lambda>a s. s\<lparr>C_D := a\<rparr>),
         assign (\<lambda>s. case iterate (lift_coeff s) of Inl e \<Rightarrow> Inl e
                      | Inr xs \<Rightarrow> np_set i (py_sum xs) (C_L s)) (\<lambda>a s. s\<lparr>C_L := a\<rparr>),
         assign (\<lambda>s. case iterate (p_front s) of Inl e \<Rightarrow> Inl e
                      | Inr ps \<Rightarrow> store_front i ps (p_diff s)) (\<lambda>a s. s\<lparr>p_diff := a\<rparr>),
         assign (\<lambda>s. case iterate (p_back s) of Inl e \<Rightarrow> Inl e
                      | Inr ps \<Rightarrow> subtract_back i ps (p_diff s)) (\<lambda>a s. s\<lparr>p_diff := a\<rparr>)])"

definition loop_body :: "ns_lib \<Rightarrow> nat \<Rightarrow> ns \<Rightarrow> ns" where
  "loop_body E i = run_all
     [advance_time, update_inlet E, step1 E, step2 E, step3 E, write_solutions,
      update_history, gather_quantities E i, record_quantities E i]"

text \<open>\<open>for i in range(steps): ...\<close>\<close>

definition time_loop :: "ns_lib \<Rightarrow> nat \<Rightarrow> ns \<Rightarrow> ns" where
  "time_loop E steps s = fold (loop_body E) [0..<steps] s"

definition writer_calls :: "string list" where
  "writer_calls =
    [''VTXWriter'', ''VTXWriter'', ''vtx_u.write'', ''vtx_p.write'',
     ''tqdm.autonotebook.tqdm'']"

definition close_calls :: "string list" where
  "close_calls =
    [''vtx_u.close'', ''vtx_p.close'']"

definition ns_cell17 :: "ns_lib \<Rightarrow> nat \<Rightarrow> ns \<Rightarrow> ns" where
  "ns_cell17 E steps = run_all
     [do_calls writer_calls,
      time_loop E steps,
      do_calls close_calls]"

subsection \<open>Comparison with the benchmark data (cell 18)\<close>

text \<open>
  On rank 0 the cell creates the directory \<open>figures\<close> if it is missing, loads the two
  reference files and draws three figures, each with the computed series, the reference
  series, a title, a grid and a legend, saved to a file.
\<close>

definition figure_calls :: "string list" where
  "figure_calls =
    [''np.loadtxt'', ''np.loadtxt'', ''plt.figure'', ''plt.plot'', ''plt.plot'', ''plt.title'',
     ''plt.grid'', ''plt.legend'', ''plt.savefig'', ''plt.figure'', ''plt.plot'', ''plt.plot'',
     ''plt.title'', ''plt.grid'', ''plt.legend'', ''plt.savefig'', ''plt.figure'',
     ''plt.plot'', ''plt.plot'', ''plt.title'', ''plt.grid'', ''plt.legend'', ''plt.savefig'']"

definition ns_cell18 :: "ns_lib \<Rightarrow> ns \<Rightarrow> ns" where
  "ns_cell18 E =
     py_if (comm_rank E = 0)
       (run_all
        [call ''os.path.exists'',
         py_if (\<not> figures_exists E) (call ''os.mkdir''),
         do_calls figure_calls])"

definition ns_script :: "ns_lib \<Rightarrow> nat \<Rightarrow> ns" where
  "ns_script E steps = run_all
     [ns_cell1 E, ns_cell2 E, ns_cell3 E, ns_cell4 E, ns_cell5 E, ns_cell6 E, ns_cell7,
      ns_cell8, ns_cell9 E, ns_cell10 E, ns_cell11, ns_cell12, ns_cell13, ns_cell14,
      ns_cell15 E steps, ns_cell16 E steps, ns_cell17 E steps, ns_cell18 E] ns_start"

definition ns_notebook :: "ns_lib \<Rightarrow> ns" where
  "ns_notebook E = ns_script E num_steps"

section \<open>Quantities of a time step\<close>

text \<open>
  Names for what one pass through the loop body computes, as functions of the state at the
  start of the pass: the inlet data at the new time, the tentative velocity (step 1), the
  pressure correction (step 2) and the corrected velocity (step 3).
\<close>

definition inlet_dofs :: "ns_lib \<Rightarrow> real \<Rightarrow> real list" where
  "inlet_dofs E tt =
     (case interpolate_rows (V_dof_coordinates E) (InletVelocity_call \<lparr>t = tt\<rparr>) of
        Inl e \<Rightarrow> [] | Inr vs \<Rightarrow> vs)"

definition tentative_velocity :: "ns_lib \<Rightarrow> ns \<Rightarrow> real list" where
  "tentative_velocity E s =
     fst (solver1_solve E (u_n s) (u_n1 s) (p_cur s) (inlet_dofs E (t_now s + dt)))"

definition pressure_correction :: "ns_lib \<Rightarrow> ns \<Rightarrow> real list" where
  "pressure_correction E s = fst (solver2_solve E (tentative_velocity E s))"

definition corrected_velocity :: "ns_lib \<Rightarrow> ns \<Rightarrow> real list" where
  "corrected_velocity E s = fst (solver3_solve E (tentative_velocity E s) (pressure_correction E s))"

text \<open>The library calls of the three steps and of a whole pass, in order.\<close>

definition step1_calls :: "string list" where
  "step1_calls =
     [''A1.zeroEntries'', ''assemble_matrix'', ''A1.assemble'', ''b1.localForm'',
      ''loc.set'', ''assemble_vector'', ''apply_lifting'', ''b1.ghostUpdate'',
      ''set_bc'', ''solver1.solve'', ''u_s.x.scatter_forward'']"

definition step2_calls :: "string list" where
  "step2_calls =
     [''b2.localForm'', ''loc.set'', ''assemble_vector'', ''apply_lifting'',
      ''b2.ghostUpdate'', ''set_bc'', ''solver2.solve'', ''phi.x.scatter_forward'',
      ''p_.vector.axpy'', ''p_.x.scatter_forward'']"

definition step3_calls :: "string list" where
  "step3_calls =
     [''b3.localForm'', ''loc.set'', ''assemble_vector'', ''b3.ghostUpdate'',
      ''solver3.solve'', ''u_.x.scatter_forward'']"

definition gather_calls :: "ns_lib \<Rightarrow> string list" where
  "gather_calls E =
     [''assemble_scalar'', ''mesh.comm.gather'', ''assemble_scalar'', ''mesh.comm.gather'']
     @ (if 0 < length (front_cells E) then [''p_.eval''] else []) @ [''mesh.comm.gather'']
     @ (if 0 < length (back_cells E) then [''p_.eval''] else []) @ [''mesh.comm.gather'']"

definition iteration_calls :: "ns_lib \<Rightarrow> string list" where
  "iteration_calls E =
     [''progress.update'', ''u_inlet.interpolate''] @ step1_calls @ step2_calls @ step3_calls
     @ [''vtx_u.write'', ''vtx_p.write'']
     @ [''u_.vector.localForm'', ''u_n.vector.localForm'', ''u_n1.vector.localForm'',
        ''loc_n.copy'', ''loc_.copy'']
     @ gather_calls E"

text \<open>
  The four calls that make up the splitting scheme, and a library whose three linear
  solvers return the same solutions with other convergence reasons.
\<close>

definition scheme_calls :: "string list" where
  "scheme_calls = [''solver1.solve'', ''solver2.solve'', ''p_.vector.axpy'', ''solver3.solve'']"

definition with_reasons :: "int \<Rightarrow> int \<Rightarrow> int \<Rightarrow> ns_lib \<Rightarrow> ns_lib" where
  "with_reasons r1 r2 r3 E =
     E\<lparr>solver1_solve := (\<lambda>a b c d. (fst (solver1_solve E a b c d), r1)),
       solver2_solve := (\<lambda>a. (fst (solver2_solve E a), r2)),
       solver3_solve := (\<lambda>a b. (fst (solver3_solve E a b), r3))\<rparr>"

text \<open>
  What rank 0 receives from the four gathers of time step \<open>i\<close>, its own state after the
  step being \<open>s\<close>; and the first entry of a gathered list that is not \<open>None\<close>.
\<close>

definition gathered_drag :: "ns_lib \<Rightarrow> nat \<Rightarrow> ns \<Rightarrow> real list" where
  "gathered_drag E i s = assemble_scalar_drag E (u_cur s) (p_cur s) # others_drag E i"

definition gathered_lift :: "ns_lib \<Rightarrow> nat \<Rightarrow> ns \<Rightarrow> real list" where
  "gathered_lift E i s = assemble_scalar_lift E (u_cur s) (p_cur s) # others_lift E i"

definition gathered_p_front :: "ns_lib \<Rightarrow> nat \<Rightarrow> ns \<Rightarrow> real option list" where
  "gathered_p_front E i s = local_probe E 0 (front_cells E) (p_cur s) # others_p_front E i"

definition gathered_p_back :: "ns_lib \<Rightarrow> nat \<Rightarrow> ns \<Rightarrow> real option list" where
  "gathered_p_back E i s = local_probe E 1 (back_cells E) (p_cur s) # others_p_back E i"

fun first_not_None :: "'a option list \<Rightarrow> 'a option" where
  "first_not_None [] = None"
| "first_not_None (None # ps) = first_not_None ps"
| "first_not_None (Some v # ps) = Some v"

text \<open>
  A state from which \<open>m\<close> passes run without an exception: none is pending, the
  coordinate array of the velocity space has its rows, and on rank 0 the five arrays
  have at least \<open>m\<close> entries. \<open>measured\<close> is the loop body up to the gathers.
\<close>

definition loop_ready :: "ns_lib \<Rightarrow> nat \<Rightarrow> ns \<Rightarrow> bool" where
  "loop_ready E m s =
     (raised s = None \<and> 2 \<le> length (V_dof_coordinates E) \<and>
      (comm_rank E = 0 \<longrightarrow>
         m \<le> length (t_u s) \<and> m \<le> length (t_p s) \<and> m \<le> length (C_D s) \<and>
         m \<le> length (C_L s) \<and> m \<le> length (p_diff s)))"

definition measured :: "ns_lib \<Rightarrow> nat \<Rightarrow> ns \<Rightarrow> ns" where
  "measured E i s =
     gather_quantities E i (update_history (write_solutions (step3 E (step2 E (step1 E
       (update_inlet E (advance_time s)))))))"

section \<open>The calls of the Navier-Stokes notebook\<close>

text \<open>
  The library calls of a complete run, cell by cell: mesh generation (cells 1 to 7, on the
  model rank one \<open>getCenterOfMass\<close> per boundary curve), parameters, spaces, boundary
  conditions, forms, solvers and probes (cells 8 to 16), the time loop (cell 17) and the
  figures (cell 18, on rank 0).
\<close>

definition ns_mesh_calls :: "ns_lib \<Rightarrow> string list" where
  "ns_mesh_calls E =
     ''gmsh.initialize'' #
     (if comm_rank E = model_rank
      then geometry_calls @ cut_calls @ [''gmsh.model.getEntities''] @ fluid_marker_calls @
           [''gmsh.model.getBoundary''] @
           replicate (length (getBoundary E)) ''gmsh.model.occ.getCenterOfMass'' @
           boundary_marker_calls @ mesh_field_calls @ mesh_generate_calls
      else []) @
     [''gmshio.model_to_mesh'']"

definition ns_discretisation_calls :: "string list" where
  "ns_discretisation_calls =
     parameter_calls @ function_space_calls @ [''u_inlet.interpolate''] @
     boundary_condition_calls @ velocity_function_calls @ pressure_function_calls @
     form1_calls @ form2_calls @ form3_calls @ solver_setup_calls @ drag_lift_form_calls @
     probe_calls"

definition ns_loop_calls :: "ns_lib \<Rightarrow> nat \<Rightarrow> string list" where
  "ns_loop_calls E m = writer_calls @ concat (replicate m (iteration_calls E)) @ close_calls"

definition ns_figure_calls :: "ns_lib \<Rightarrow> string list" where
  "ns_figure_calls E =
     (if comm_rank E = 0
      then ''os.path.exists'' # (if figures_exists E then [] else [''os.mkdir'']) @ figure_calls
      else [])"

definition ns_calls :: "ns_lib \<Rightarrow> nat \<Rightarrow> string list" where
  "ns_calls E m =
     ns_mesh_calls E @ ns_discretisation_calls @ ns_loop_calls E m @ ns_figure_calls E"

text \<open>
  The state before the time loop (cells 1 to 16), and the condition of the assertion of
  cell 3.
\<close>

definition ns_setup :: "ns_lib \<Rightarrow> nat \<Rightarrow> ns" where
  "ns_setup E steps = run_all
     [ns_cell1 E, ns_cell2 E, ns_cell3 E, ns_cell4 E, ns_cell5 E, ns_cell6 E, ns_cell7,
      ns_cell8, ns_cell9 E, ns_cell10 E, ns_cell11, ns_cell12, ns_cell13, ns_cell14,
      ns_cell15 E steps, ns_cell16 E steps] ns_start"

definition volumes_ok :: "ns_lib \<Rightarrow> bool" where
  "volumes_ok E = (comm_rank E \<noteq> model_rank \<or> length (getEntities E) = 1)"

section \<open>Concrete library behaviours\<close>

text \<open>
  A small run of the nonlinear Poisson notebook: one process, four nodes at the corners of
  the unit square (a fifth, the centre, in the space of the error computation), a solver
  that reports eight iterations and the flag \<open>c\<close>, and returns the exact nodal values.
\<close>

definition example_poisson_lib :: "bool \<Rightarrow> poisson_lib" where
  "example_poisson_lib c =
     \<lparr>comm_rank = 0,
      V_coordinates = [[0, 1, 0, 1], [0, 0, 1, 1], [0, 0, 0, 0]],
      V_ex_coordinates = [[0, 1, 0, 1, 1 / 2], [0, 0, 1, 1, 1 / 2], [0, 0, 0, 0, 0]],
      solver_solve = (\<lambda>u. ((8, c), [1, 2, 3, 4])),
      assemble_scalar_error = (\<lambda>a b. 0),
      allreduce_SUM = (\<lambda>v. v),
      allreduce_MAX = (\<lambda>v. v)\<rparr>"

text \<open>
  A small run of the Navier-Stokes notebook on three processes, seen from rank \<open>r\<close>: one
  fluid surface, the four sides of the channel and the obstacle as boundary curves, two
  velocity nodes, two pressure unknowns, and solvers, integrals and probes with simple
  values. This process owns a cell at the back probe point only; of the two other
  processes, rank 2 owns one at the front point and rank 1 one at the back point.
\<close>

definition example_ns_lib :: "nat \<Rightarrow> ns_lib" where
  "example_ns_lib r =
     \<lparr>comm_rank = r,
      getEntities = [(2, 1)],
      getBoundary = [(1, 5), (1, 6), (1, 7), (1, 8), (1, 9)],
      getCenterOfMass = (\<lambda>d tag.
        if tag = 5 then (0, H / 2, 0) else if tag = 6 then (L, H / 2, 0)
        else if tag = 7 then (L / 2, H, 0) else if tag = 8 then (L / 2, 0, 0)
        else (1 / 5, 1 / 5, 0)),
      V_dof_coordinates = [[0, 0], [41 / 200, 41 / 100], [0, 0]],
      Q_ndofs = 2,
      solver1_solve = (\<lambda>un un1 p uin. (map (\<lambda>v. v + 1) un, 2)),
      solver2_solve = (\<lambda>us. ([1, 2], 2)),
      solver3_solve = (\<lambda>us ph. (map (\<lambda>v. v + 1) us, 2)),
      assemble_scalar_drag = (\<lambda>u p. 3),
      assemble_scalar_lift = (\<lambda>u p. 1),
      front_cells = [],
      back_cells = [4],
      p_eval = (\<lambda>p point cell. p ! point),
      others_drag = (\<lambda>i. [10, 20]),
      others_lift = (\<lambda>i. [- 1, 4]),
      others_p_front = (\<lambda>i. [None, Some 7]),
      others_p_back = (\<lambda>i. [Some 1, None]),
      figures_exists = False\<rparr>"

section \<open>Running statements\<close>

lemma exec_raised [simp]: "raised s = Some e \<Longrightarrow> exec g s = s"
  by (simp add: exec_def)

lemma exec_ok [simp]: "raised s = None \<Longrightarrow> exec g s = g s"
  by (simp add: exec_def)

lemma run_all_Nil [simp]: "run_all [] s = s"
  by (simp add: run_all_def)

lemma run_all_Cons [simp]: "run_all (g # gs) s = run_all gs (g s)"
  by (simp add: run_all_def)

lemma py_if_True [simp]: "py_if True g s = g s"
  by (simp add: py_if_def)

lemma py_if_False [simp]: "py_if False g s = s"
  by (simp add: py_if_def)

lemma call_ok: "raised s = None \<Longrightarrow> call a s = s\<lparr>calls := calls s @ [a]\<rparr>"
  by (simp add: call_def)

lemma do_calls_ok: "raised s = None \<Longrightarrow> do_calls names s = s\<lparr>calls := calls s @ names\<rparr>"
proof (induction names arbitrary: s)
  case Nil
  then show ?case by (simp add: do_calls_def)
next
  case (Cons a names)
  have "do_calls (a # names) s = do_calls names (call a s)"
    by (simp add: do_calls_def)
  also have "\<dots> = do_calls names (s\<lparr>calls := calls s @ [a]\<rparr>)"
    using Cons.prems by (simp add: call_ok)
  also have "\<dots> = s\<lparr>calls := calls s @ a # names\<rparr>"
    using Cons.prems by (simp add: Cons.IH)
  finally show ?case .
qed

lemma do_calls_stopped: "raised s = Some e \<Longrightarrow> do_calls names s = s"
  by (induction names arbitrary: s) (simp_all add: do_calls_def call_def)

lemma emitsI:
  assumes "\<And>s. raised s \<noteq> None \<Longrightarrow> g s = s"
    and "\<And>s. raised s = None \<Longrightarrow> raised (g s) = None \<Longrightarrow> calls (g s) = calls s @ cs"
    and "\<And>s. raised s = None \<Longrightarrow> raised (g s) \<noteq> None \<Longrightarrow> \<exists>xs. prefix xs cs \<and> calls (g s) = calls s @ xs"
  shows "emits g cs"
  unfolding emits_def using assms by auto

lemma emits_stopped: "emits g cs \<Longrightarrow> raised s \<noteq> None \<Longrightarrow> g s = s"
  by (simp add: emits_def)

lemma emits_prefix:
  assumes "emits g cs" and "raised s = None"
  shows "\<exists>xs. prefix xs cs \<and> calls (g s) = calls s @ xs"
  using assms unfolding emits_def by (metis prefix_order.order_refl)

lemma emits_done:
  assumes "emits g cs" and "raised s = None" and "raised (g s) = None"
  shows "calls (g s) = calls s @ cs"
  using assms unfolding emits_def by metis

lemma emits_do_calls: "emits (do_calls names) names"
  by (rule emitsI) (auto simp: do_calls_ok do_calls_stopped)

lemma emits_call: "emits (call a) [a]"
  by (rule emitsI) (auto simp: call_def)

lemma emits_exec:
  assumes "\<And>s. calls (g s) = calls s" and "\<And>s. raised (g s) = raised s"
  shows "emits (exec g) []"
  by (rule emitsI) (auto simp: exec_def assms)

lemma emits_assign:
  assumes "\<And>v s. calls (store v s) = calls s" and "\<And>v s. raised (store v s) = raised s"
  shows "emits (assign rhs store) []"
  by (rule emitsI) (auto simp: assign_def exec_def assms split: sum.splits)

lemma emits_py_assert: "emits (py_assert b) []"
  by (rule emitsI) (auto simp: py_assert_def exec_def)

lemma emits_py_print: "emits (py_print x) [''print'']"
  by (rule emitsI) (auto simp: py_print_def exec_def)

lemma emits_py_if: "emits g cs \<Longrightarrow> emits (py_if c g) (if c then cs else [])"
  by (cases c) (auto simp: emits_def py_if_def)

lemma emits_comp:
  assumes g: "emits g cs" and h: "emits h ds"
  shows "emits (\<lambda>s. h (g s)) (cs @ ds)"
proof (rule emitsI)
  fix s :: "'a run_scheme"
  assume "raised s \<noteq> None"
  then show "h (g s) = s" using g h by (simp add: emits_stopped)
next
  fix s :: "'a run_scheme"
  assume s: "raised s = None" and ok: "raised (h (g s)) = None"
  have gs: "raised (g s) = None"
  proof (rule ccontr)
    assume "raised (g s) \<noteq> None"
    then have "h (g s) = g s" using h by (simp add: emits_stopped)
    with ok \<open>raised (g s) \<noteq> None\<close> show False by simp
  qed
  then show "calls (h (g s)) = calls s @ cs @ ds"
    using emits_done [OF g s gs] emits_done [OF h gs ok] by simp
next
  fix s :: "'a run_scheme"
  assume s: "raised s = None" and bad: "raised (h (g s)) \<noteq> None"
  show "\<exists>xs. prefix xs (cs @ ds) \<and> calls (h (g s)) = calls s @ xs"
  proof (cases "raised (g s) = None")
    case True
    obtain ys where ys: "prefix ys ds" "calls (h (g s)) = calls (g s) @ ys"
      using emits_prefix [OF h True] by blast
    have "calls (g s) = calls s @ cs" using emits_done [OF g s True] .
    with ys show ?thesis by (intro exI [of _ "cs @ ys"]) simp
  next
    case False
    then have eq: "h (g s) = g s" using h by (simp add: emits_stopped)
    obtain xs where xs: "prefix xs cs" "calls (g s) = calls s @ xs"
      using emits_prefix [OF g s] by blast
    then show ?thesis unfolding eq by (intro exI [of _ xs]) (simp add: prefix_prefix)
  qed
qed

lemma emits_run_all_Nil: "emits (run_all []) []"
  by (rule emitsI) auto

lemma emits_run_all_Cons:
  assumes "emits g cs" and "emits (run_all gs) ds"
  shows "emits (run_all (g # gs)) (cs @ ds)"
proof -
  have "run_all (g # gs) = (\<lambda>s. run_all gs (g s))" by (rule ext) simp
  then show ?thesis using emits_comp [OF assms] by simp
qed

section \<open>The time loop, step by step\<close>

lemma assign_Inr: "raised s = None \<Longrightarrow> rhs s = Inr v \<Longrightarrow> assign rhs store s = store v s"
  by (simp add: assign_def)

lemma assign_Inl: "raised s = None \<Longrightarrow> rhs s = Inl e \<Longrightarrow> assign rhs store s = s\<lparr>raised := Some e\<rparr>"
  by (simp add: assign_def)

lemma advance_time_ok:
  "raised s = None \<Longrightarrow>
   advance_time s = s\<lparr>calls := calls s @ [''progress.update''], t_now := t_now s + dt\<rparr>"
  by (simp add: advance_time_def call_ok)

lemma interpolate_inlet_value:
  "2 \<le> length (V_dof_coordinates E) \<Longrightarrow>
   interpolate_rows (V_dof_coordinates E) (InletVelocity_call \<lparr>t = tt\<rparr>) = Inr (inlet_dofs E tt)"
  by (simp add: interpolate_rows_def InletVelocity_call_def inlet_dofs_def)

lemma update_inlet_ok:
  assumes "raised s = None" and "2 \<le> length (V_dof_coordinates E)"
  shows "update_inlet E s =
     s\<lparr>inlet_velocity := \<lparr>t = t_now s\<rparr>, calls := calls s @ [''u_inlet.interpolate''],
       u_inlet := inlet_dofs E (t_now s)\<rparr>"
proof -
  let ?s1 = "s\<lparr>inlet_velocity := (inlet_velocity s)\<lparr>t := t_now s\<rparr>\<rparr>"
  have iv: "(inlet_velocity s)\<lparr>t := t_now s\<rparr> = \<lparr>t = t_now s\<rparr>" by simp
  have "update_inlet E s = interpolate_inlet E ?s1"
    using assms by (simp add: update_inlet_def)
  also have "\<dots> = assign (\<lambda>s. interpolate_rows (V_dof_coordinates E) (InletVelocity_call (inlet_velocity s)))
        (\<lambda>vs s. s\<lparr>u_inlet := vs\<rparr>) (?s1\<lparr>calls := calls s @ [''u_inlet.interpolate'']\<rparr>)"
    using assms by (simp add: interpolate_inlet_def call_ok)
  also have "\<dots> = ?s1\<lparr>calls := calls s @ [''u_inlet.interpolate''], u_inlet := inlet_dofs E (t_now s)\<rparr>"
    using assms by (subst assign_Inr [where v = "inlet_dofs E (t_now s)"]) (simp_all add: iv interpolate_inlet_value)
  finally show ?thesis by (simp add: iv)
qed

lemma step1_ok:
  "raised s = None \<Longrightarrow>
   step1 E s = s\<lparr>calls := calls s @ step1_calls,
                 u_s := fst (solver1_solve E (u_n s) (u_n1 s) (p_cur s) (u_inlet s))\<rparr>"
  by (simp add: step1_def do_calls_ok call_ok step1_calls_def)

lemma step2_ok:
  "raised s = None \<Longrightarrow>
   step2 E s = s\<lparr>calls := calls s @ step2_calls,
                 phi := fst (solver2_solve E (u_s s)),
                 p_cur := axpy 1 (fst (solver2_solve E (u_s s))) (p_cur s)\<rparr>"
  by (simp add: step2_def do_calls_ok call_ok step2_calls_def)

lemma step3_ok:
  "raised s = None \<Longrightarrow>
   step3 E s = s\<lparr>calls := calls s @ step3_calls,
                 u_cur := fst (solver3_solve E (u_s s) (phi s))\<rparr>"
  by (simp add: step3_def do_calls_ok call_ok step3_calls_def)

lemma write_solutions_ok:
  "raised s = None \<Longrightarrow> write_solutions s = s\<lparr>calls := calls s @ [''vtx_u.write'', ''vtx_p.write'']\<rparr>"
  by (simp add: write_solutions_def do_calls_ok)

lemma update_history_ok:
  "raised s = None \<Longrightarrow>
   update_history s =
     s\<lparr>calls := calls s @ [''u_.vector.localForm'', ''u_n.vector.localForm'',
                            ''u_n1.vector.localForm'', ''loc_n.copy'', ''loc_.copy''],
       u_n1 := u_n s, u_n := u_cur s\<rparr>"
  by (simp add: update_history_def do_calls_ok call_ok)

lemma py_if_call:
  "raised s = None \<Longrightarrow> py_if c (call a) s = s\<lparr>calls := calls s @ (if c then [a] else [])\<rparr>"
  by (cases c) (simp_all add: call_ok)

lemma gather_quantities_ok:
  "raised s = None \<Longrightarrow>
   gather_quantities E i s =
     s\<lparr>calls := calls s @ gather_calls E,
       drag_coeff := gather E (assemble_scalar_drag E (u_cur s) (p_cur s)) (others_drag E i),
       lift_coeff := gather E (assemble_scalar_lift E (u_cur s) (p_cur s)) (others_lift E i),
       p_front := gather E (local_probe E 0 (front_cells E) (p_cur s)) (others_p_front E i),
       p_back := gather E (local_probe E 1 (back_cells E) (p_cur s)) (others_p_back E i)\<rparr>"
  by (simp add: gather_quantities_def do_calls_ok call_ok gather_calls_def py_if_call
      split del: if_split)

lemma loop_body_measured: "loop_body E i s = record_quantities E i (measured E i s)"
  by (simp add: loop_body_def measured_def)

lemma measured_ok:
  assumes "raised s = None" and "2 \<le> length (V_dof_coordinates E)"
  shows "measured E i s =
     s\<lparr>calls := calls s @ iteration_calls E,
       t_now := t_now s + dt,
       inlet_velocity := \<lparr>t = t_now s + dt\<rparr>,
       u_inlet := inlet_dofs E (t_now s + dt),
       u_s := tentative_velocity E s,
       phi := pressure_correction E s,
       p_cur := axpy 1 (pressure_correction E s) (p_cur s),
       u_cur := corrected_velocity E s,
       u_n1 := u_n s,
       u_n := corrected_velocity E s,
       drag_coeff := gather E (assemble_scalar_drag E (corrected_velocity E s)
                       (axpy 1 (pressure_correction E s) (p_cur s))) (others_drag E i),
       lift_coeff := gather E (assemble_scalar_lift E (corrected_velocity E s)
                       (axpy 1 (pressure_correction E s) (p_cur s))) (others_lift E i),
       p_front := gather E (local_probe E 0 (front_cells E)
                       (axpy 1 (pressure_correction E s) (p_cur s))) (others_p_front E i),
       p_back := gather E (local_probe E 1 (back_cells E)
                       (axpy 1 (pressure_correction E s) (p_cur s))) (others_p_back E i)\<rparr>"
  using assms
  by (simp add: measured_def advance_time_ok update_inlet_ok step1_ok step2_ok step3_ok
      write_solutions_ok update_history_ok gather_quantities_ok iteration_calls_def
      tentative_velocity_def pressure_correction_def corrected_velocity_def
      split del: if_split)

lemma assign_frame:
  assumes "\<And>x s. sel (s\<lparr>raised := x\<rparr>) = sel s" and "\<And>v s. sel (store v s) = sel s"
  shows "sel (assign rhs store s) = sel s"
  by (simp add: assign_def exec_def assms split: sum.splits)

lemma record_quantities_frame:
  fixes sel :: "ns \<Rightarrow> 'b"
  assumes "\<And>x s. sel (s\<lparr>raised := x\<rparr>) = sel s"
    and "\<And>a s. sel (s\<lparr>t_u := a\<rparr>) = sel s"
    and "\<And>a s. sel (s\<lparr>t_p := a\<rparr>) = sel s"
    and "\<And>a s. sel (s\<lparr>C_D := a\<rparr>) = sel s"
    and "\<And>a s. sel (s\<lparr>C_L := a\<rparr>) = sel s"
    and "\<And>a s. sel (s\<lparr>p_diff := a\<rparr>) = sel s"
  shows "sel (record_quantities E i s) = sel s"
proof (cases "comm_rank E = 0")
  case True
  then show ?thesis
    by (simp add: record_quantities_def assign_frame [of sel] assms)
next
  case False
  then show ?thesis by (simp add: record_quantities_def)
qed

lemma store_front_eq:
  "i < length a \<Longrightarrow>
   store_front i ps a = Inr (case first_not_None ps of None \<Rightarrow> a | Some v \<Rightarrow> a[i := v])"
  by (induction ps rule: first_not_None.induct) (simp_all add: np_set_def)

lemma subtract_back_eq:
  "i < length a \<Longrightarrow>
   subtract_back i ps a = Inr (case first_not_None ps of None \<Rightarrow> a | Some v \<Rightarrow> a[i := a ! i - v])"
  by (induction ps rule: first_not_None.induct) (simp_all add: np_set_def)

lemma record_quantities_rank0:
  assumes "comm_rank E = 0" and "raised s = None"
    and "i < length (t_u s)" and "i < length (t_p s)" and "i < length (C_D s)"
    and "i < length (C_L s)" and "i < length (p_diff s)"
    and "drag_coeff s = Some ds" and "lift_coeff s = Some ls"
    and "p_front s = Some pf" and "p_back s = Some pb"
  shows "record_quantities E i s =
     s\<lparr>t_u := (t_u s)[i := t_now s],
       t_p := (t_p s)[i := t_now s - dt / 2],
       C_D := (C_D s)[i := py_sum ds],
       C_L := (C_L s)[i := py_sum ls],
       p_diff := (p_diff s)[i := (case first_not_None pf of None \<Rightarrow> p_diff s ! i | Some v \<Rightarrow> v)
                                  - (case first_not_None pb of None \<Rightarrow> 0 | Some w \<Rightarrow> w)]\<rparr>"
proof -
  let ?a = "case first_not_None pf of None \<Rightarrow> p_diff s | Some v \<Rightarrow> (p_diff s)[i := v]"
  have la: "i < length ?a" using assms(7) by (simp split: option.splits)
  have bk: "(case first_not_None pb of None \<Rightarrow> ?a | Some w \<Rightarrow> ?a[i := ?a ! i - w]) =
      (p_diff s)[i := (case first_not_None pf of None \<Rightarrow> p_diff s ! i | Some v \<Rightarrow> v)
                       - (case first_not_None pb of None \<Rightarrow> 0 | Some w \<Rightarrow> w)]"
    using assms(7) by (simp split: option.splits)
  show ?thesis
    using assms la
    by (simp add: record_quantities_def assign_Inr iterate_def np_set_def store_front_eq
        subtract_back_eq bk [symmetric] del: first_not_None.simps)
qed

lemma record_quantities_other_rank: "comm_rank E \<noteq> 0 \<Longrightarrow> record_quantities E i s = s"
  by (simp add: record_quantities_def)

lemma time_loop_0 [simp]: "time_loop E 0 s = s"
  by (simp add: time_loop_def)

lemma time_loop_Suc: "time_loop E (Suc k) s = loop_body E k (time_loop E k s)"
  by (simp add: time_loop_def)

lemma loop_body_frame:
  assumes "raised s = None" and "2 \<le> length (V_dof_coordinates E)"
  shows "calls (loop_body E i s) = calls s @ iteration_calls E"
    and "t_now (loop_body E i s) = t_now s + dt"
    and "inlet_velocity (loop_body E i s) = \<lparr>t = t_now s + dt\<rparr>"
    and "u_inlet (loop_body E i s) = inlet_dofs E (t_now s + dt)"
    and "u_s (loop_body E i s) = tentative_velocity E s"
    and "phi (loop_body E i s) = pressure_correction E s"
    and "p_cur (loop_body E i s) = axpy 1 (pressure_correction E s) (p_cur s)"
    and "u_cur (loop_body E i s) = corrected_velocity E s"
    and "u_n (loop_body E i s) = corrected_velocity E s"
    and "u_n1 (loop_body E i s) = u_n s"
  unfolding loop_body_measured
  by (simp_all add: record_quantities_frame measured_ok [OF assms])

lemma measured_gathered:
  assumes "raised s = None" and "2 \<le> length (V_dof_coordinates E)"
  shows "drag_coeff (measured E i s) = gather E (assemble_scalar_drag E (u_cur (loop_body E i s)) (p_cur (loop_body E i s))) (others_drag E i)"
    and "lift_coeff (measured E i s) = gather E (assemble_scalar_lift E (u_cur (loop_body E i s)) (p_cur (loop_body E i s))) (others_lift E i)"
    and "p_front (measured E i s) = gather E (local_probe E 0 (front_cells E) (p_cur (loop_body E i s))) (others_p_front E i)"
    and "p_back (measured E i s) = gather E (local_probe E 1 (back_cells E) (p_cur (loop_body E i s))) (others_p_back E i)"
    and "raised (measured E i s) = None"
    and "t_u (measured E i s) = t_u s" and "t_p (measured E i s) = t_p s"
    and "C_D (measured E i s) = C_D s" and "C_L (measured E i s) = C_L s"
    and "p_diff (measured E i s) = p_diff s"
    and "t_now (measured E i s) = t_now s + dt"
  using assms by (simp_all add: loop_body_frame [OF assms] measured_ok [OF assms])

lemma loop_body_rank0:
  assumes "comm_rank E = 0" and "loop_ready E m s" and "i < m"
  shows "raised (loop_body E i s) = None"
    and "t_u (loop_body E i s) = (t_u s)[i := t_now s + dt]"
    and "t_p (loop_body E i s) = (t_p s)[i := t_now s + dt - dt / 2]"
    and "C_D (loop_body E i s) = (C_D s)[i := py_sum (gathered_drag E i (loop_body E i s))]"
    and "C_L (loop_body E i s) = (C_L s)[i := py_sum (gathered_lift E i (loop_body E i s))]"
    and "p_diff (loop_body E i s) =
           (p_diff s)[i := (case first_not_None (gathered_p_front E i (loop_body E i s)) of
                              None \<Rightarrow> p_diff s ! i | Some v \<Rightarrow> v)
                           - (case first_not_None (gathered_p_back E i (loop_body E i s)) of
                              None \<Rightarrow> 0 | Some w \<Rightarrow> w)]"
proof -
  have r: "raised s = None" and c: "2 \<le> length (V_dof_coordinates E)"
    and len: "i < length (t_u s)" "i < length (t_p s)" "i < length (C_D s)"
      "i < length (C_L s)" "i < length (p_diff s)"
    using assms by (auto simp: loop_ready_def)
  note mg = measured_gathered [OF r c, of i]
  have eq: "loop_body E i s =
     (measured E i s)\<lparr>t_u := (t_u s)[i := t_now s + dt],
       t_p := (t_p s)[i := t_now s + dt - dt / 2],
       C_D := (C_D s)[i := py_sum (gathered_drag E i (loop_body E i s))],
       C_L := (C_L s)[i := py_sum (gathered_lift E i (loop_body E i s))],
       p_diff := (p_diff s)[i := (case first_not_None (gathered_p_front E i (loop_body E i s)) of
                              None \<Rightarrow> p_diff s ! i | Some v \<Rightarrow> v)
                           - (case first_not_None (gathered_p_back E i (loop_body E i s)) of
                              None \<Rightarrow> 0 | Some w \<Rightarrow> w)]\<rparr>"
    apply (subst loop_body_measured)
    apply (subst record_quantities_rank0 [where ds = "gathered_drag E i (loop_body E i s)"
          and ls = "gathered_lift E i (loop_body E i s)"
          and pf = "gathered_p_front E i (loop_body E i s)"
          and pb = "gathered_p_back E i (loop_body E i s)"])
    using assms(1) len
              apply (simp_all add: mg gather_def gathered_drag_def gathered_lift_def
        gathered_p_front_def gathered_p_back_def cong: option.case_cong)
    done
  show "raised (loop_body E i s) = None" by (subst eq) (simp add: mg)
  show "t_u (loop_body E i s) = (t_u s)[i := t_now s + dt]" by (subst eq) simp
  show "t_p (loop_body E i s) = (t_p s)[i := t_now s + dt - dt / 2]" by (subst eq) simp
  show "C_D (loop_body E i s) = (C_D s)[i := py_sum (gathered_drag E i (loop_body E i s))]"
    by (subst eq) simp
  show "C_L (loop_body E i s) = (C_L s)[i := py_sum (gathered_lift E i (loop_body E i s))]"
    by (subst eq) simp
  show "p_diff (loop_body E i s) =
           (p_diff s)[i := (case first_not_None (gathered_p_front E i (loop_body E i s)) of
                              None \<Rightarrow> p_diff s ! i | Some v \<Rightarrow> v)
                           - (case first_not_None (gathered_p_back E i (loop_body E i s)) of
                              None \<Rightarrow> 0 | Some w \<Rightarrow> w)]"
    by (subst eq) simp
qed

lemma loop_body_other_rank:
  assumes "comm_rank E \<noteq> 0" and "raised s = None" and "2 \<le> length (V_dof_coordinates E)"
  shows "raised (loop_body E i s) = None"
    and "t_u (loop_body E i s) = t_u s" and "t_p (loop_body E i s) = t_p s"
    and "C_D (loop_body E i s) = C_D s" and "C_L (loop_body E i s) = C_L s"
    and "p_diff (loop_body E i s) = p_diff s"
  unfolding loop_body_measured
  by (simp_all add: record_quantities_other_rank assms measured_gathered)

lemma loop_body_ready:
  assumes "loop_ready E m s" and "i < m"
  shows "loop_ready E m (loop_body E i s)"
proof (cases "comm_rank E = 0")
  case True
  show ?thesis
    using assms True
    by (simp add: loop_ready_def loop_body_rank0 [OF True assms])
next
  case False
  have r: "raised s = None" and c: "2 \<le> length (V_dof_coordinates E)"
    using assms by (auto simp: loop_ready_def)
  show ?thesis
    using False c by (simp add: loop_ready_def loop_body_other_rank [OF False r c])
qed

lemma time_loop_ready:
  "loop_ready E m s \<Longrightarrow> k \<le> m \<Longrightarrow> loop_ready E m (time_loop E k s)"
  by (induction k) (simp_all add: time_loop_Suc loop_body_ready)

lemma emits_eq: "emits g cs \<Longrightarrow> cs = ds \<Longrightarrow> emits g ds"
  by simp

lemmas emits_intros =
  emits_run_all_Cons emits_run_all_Nil emits_call emits_do_calls emits_py_assert
  emits_py_print emits_py_if emits_exec emits_assign

lemma emits_tag_boundary: "emits (tag_boundary E b) [''gmsh.model.occ.getCenterOfMass'']"
  unfolding tag_boundary_def
  by (rule emits_eq, (rule emits_intros | simp add: Let_def)+)

lemma emits_map:
  assumes "\<And>b. emits (g b) [c]"
  shows "emits (run_all (map g bs)) (replicate (length bs) c)"
proof (induction bs)
  case Nil
  show ?case by (rule emitsI) simp_all
next
  case (Cons b bs)
  have "emits (run_all (g b # map g bs)) ([c] @ replicate (length bs) c)"
    by (rule emits_run_all_Cons [OF assms Cons.IH])
  then show ?case
    by (simp only: list.map length_Cons replicate_Suc append_Cons append_Nil)
qed

lemma emits_loop_body: "emits (loop_body E i) (iteration_calls E)"
  unfolding loop_body_def advance_time_def update_inlet_def interpolate_inlet_def step1_def
    step2_def step3_def write_solutions_def update_history_def gather_quantities_def
    record_quantities_def
  by (rule emits_eq, (rule emits_intros | simp add: iteration_calls_def step1_calls_def step2_calls_def step3_calls_def
      gather_calls_def)+)

lemma emits_time_loop: "emits (time_loop E m) (concat (replicate m (iteration_calls E)))"
proof (induction m)
  case 0
  show ?case by (rule emitsI) simp_all
next
  case (Suc m)
  have "time_loop E (Suc m) = (\<lambda>s. loop_body E m (time_loop E m s))"
    by (rule ext) (simp add: time_loop_Suc)
  moreover have "concat (replicate (Suc m) (iteration_calls E))
      = concat (replicate m (iteration_calls E) @ [iteration_calls E])"
    by (simp only: replicate_Suc replicate_append_same)
  ultimately show ?case
    using emits_comp [OF Suc.IH emits_loop_body [of E m]] by simp
qed

section \<open>The cells around the time loop\<close>

lemma ns_start_eq:
  "ns_start = \<lparr>raised = None, calls = [], stdout = [], volumes = [], inflow = [], outflow = [],
      walls = [], obstacle = [], t_now = 0, inlet_velocity = \<lparr>t = 0\<rparr>, u_inlet = [],
      u_cur = [], u_s = [], u_n = [], u_n1 = [], p_cur = [], phi = [], C_D = [], C_L = [],
      t_u = [], t_p = [], p_diff = [], drag_coeff = None, lift_coeff = None, p_front = None,
      p_back = None\<rparr>"
  by (simp add: ns_start_def start_def run.defs InletVelocity_init_def)

lemma ns_script_setup: "ns_script E m = ns_cell18 E (ns_cell17 E m (ns_setup E m))"
  by (simp add: ns_script_def ns_setup_def)

lemma py_if_do_calls:
  "raised s = None \<Longrightarrow>
   py_if c (do_calls names) s = s\<lparr>calls := calls s @ (if c then names else [])\<rparr>"
  by (cases c) (simp_all add: do_calls_ok)

lemma emits_mesh:
  "emits (run_all [ns_cell1 E, ns_cell2 E, ns_cell3 E, ns_cell4 E, ns_cell5 E, ns_cell6 E, ns_cell7])
     (ns_mesh_calls E)"
  unfolding ns_cell1_def ns_cell2_def ns_cell3_def ns_cell4_def ns_cell5_def ns_cell6_def
    ns_cell7_def
  by (rule emits_eq, (rule emits_intros emits_map emits_tag_boundary | simp add: ns_mesh_calls_def)+)

lemma emits_interpolate_inlet: "emits (interpolate_inlet E) [''u_inlet.interpolate'']"
  unfolding interpolate_inlet_def
  by (rule emits_eq, (rule emits_intros | simp)+)

lemma emits_discretisation:
  "emits (run_all [ns_cell8, ns_cell9 E, ns_cell10 E, ns_cell11, ns_cell12, ns_cell13, ns_cell14,
      ns_cell15 E m, ns_cell16 E m]) ns_discretisation_calls"
  unfolding ns_cell8_def ns_cell9_def ns_cell10_def ns_cell11_def ns_cell12_def ns_cell13_def
    ns_cell14_def ns_cell15_def ns_cell16_def
  by (rule emits_eq, (rule emits_intros emits_interpolate_inlet | simp add: ns_discretisation_calls_def)+)

lemma emits_ns_cell17: "emits (ns_cell17 E m) (ns_loop_calls E m)"
  unfolding ns_cell17_def
  by (rule emits_eq, (rule emits_intros emits_time_loop | simp add: ns_loop_calls_def)+)

lemma emits_ns_cell18: "emits (ns_cell18 E) (ns_figure_calls E)"
  unfolding ns_cell18_def
  by (rule emits_eq, (rule emits_intros | simp add: ns_figure_calls_def)+)

lemma run_all_append: "run_all (gs @ hs) s = run_all hs (run_all gs s)"
  by (simp add: run_all_def)

lemma emits_run_all_append:
  assumes "emits (run_all gs) cs" and "emits (run_all hs) ds"
  shows "emits (run_all (gs @ hs)) (cs @ ds)"
proof -
  have "run_all (gs @ hs) = (\<lambda>s. run_all hs (run_all gs s))"
    by (rule ext) (rule run_all_append)
  then show ?thesis using emits_comp [OF assms] by simp
qed

lemma emits_ns_cells:
  "emits (run_all [ns_cell1 E, ns_cell2 E, ns_cell3 E, ns_cell4 E, ns_cell5 E, ns_cell6 E, ns_cell7,
      ns_cell8, ns_cell9 E, ns_cell10 E, ns_cell11, ns_cell12, ns_cell13, ns_cell14,
      ns_cell15 E m, ns_cell16 E m, ns_cell17 E m, ns_cell18 E]) (ns_calls E m)"
proof -
  have "emits (run_all [ns_cell17 E m, ns_cell18 E]) (ns_loop_calls E m @ ns_figure_calls E @ [])"
    by (intro emits_run_all_Cons emits_ns_cell17 emits_ns_cell18 emits_run_all_Nil)
  from emits_run_all_append [OF emits_mesh emits_run_all_append [OF emits_discretisation this]]
  show ?thesis by (simp add: ns_calls_def)
qed

lemma ns_cell3_ok:
  "raised s = None \<Longrightarrow> volumes_ok E \<Longrightarrow>
   ns_cell3 E s =
     (if comm_rank E = model_rank
      then s\<lparr>calls := calls s @ ''gmsh.model.getEntities'' # fluid_marker_calls,
             volumes := getEntities E\<rparr>
      else s)"
  by (simp add: ns_cell3_def volumes_ok_def py_if_def call_ok do_calls_ok py_assert_def)

lemma ns_cell3_bad:
  "raised s = None \<Longrightarrow> \<not> volumes_ok E \<Longrightarrow>
   ns_cell3 E s = s\<lparr>calls := calls s @ [''gmsh.model.getEntities''],
                    volumes := getEntities E, raised := Some AssertionError\<rparr>"
  by (simp add: ns_cell3_def volumes_ok_def py_if_def call_ok do_calls_stopped py_assert_def)

lemma tag_boundary_frame:
  fixes sel :: "ns \<Rightarrow> 'b"
  assumes "\<And>a s. sel (s\<lparr>calls := a\<rparr>) = sel s"
    and "\<And>a s. sel (s\<lparr>inflow := a\<rparr>) = sel s"
    and "\<And>a s. sel (s\<lparr>outflow := a\<rparr>) = sel s"
    and "\<And>a s. sel (s\<lparr>walls := a\<rparr>) = sel s"
    and "\<And>a s. sel (s\<lparr>obstacle := a\<rparr>) = sel s"
  shows "sel (tag_boundary E b s) = sel s"
  by (simp add: tag_boundary_def call_def exec_def Let_def assms)

lemma tag_boundaries_frame:
  fixes sel :: "ns \<Rightarrow> 'b"
  assumes "\<And>a s. sel (s\<lparr>calls := a\<rparr>) = sel s"
    and "\<And>a s. sel (s\<lparr>inflow := a\<rparr>) = sel s"
    and "\<And>a s. sel (s\<lparr>outflow := a\<rparr>) = sel s"
    and "\<And>a s. sel (s\<lparr>walls := a\<rparr>) = sel s"
    and "\<And>a s. sel (s\<lparr>obstacle := a\<rparr>) = sel s"
  shows "sel (run_all (map (tag_boundary E) bs) s) = sel s"
  by (induction bs arbitrary: s) (simp_all add: tag_boundary_frame [of sel] assms)

lemma do_calls_frame:
  assumes "\<And>a s. sel (s\<lparr>calls := a\<rparr>) = sel s"
  shows "sel (do_calls names s) = sel s"
  by (cases "raised s") (simp_all add: do_calls_ok do_calls_stopped assms)

lemma ns_cell4_frame:
  fixes sel :: "ns \<Rightarrow> 'b"
  assumes "\<And>a s. sel (s\<lparr>calls := a\<rparr>) = sel s"
    and "\<And>a s. sel (s\<lparr>inflow := a\<rparr>) = sel s"
    and "\<And>a s. sel (s\<lparr>outflow := a\<rparr>) = sel s"
    and "\<And>a s. sel (s\<lparr>walls := a\<rparr>) = sel s"
    and "\<And>a s. sel (s\<lparr>obstacle := a\<rparr>) = sel s"
  shows "sel (ns_cell4 E s) = sel s"
  by (simp add: ns_cell4_def py_if_def exec_def call_def do_calls_frame [of sel]
      tag_boundaries_frame [of sel] assms)

lemmas ns_cell4_fields =
  ns_cell4_frame [of raised, simplified] ns_cell4_frame [of t_now, simplified]
  ns_cell4_frame [of inlet_velocity, simplified] ns_cell4_frame [of u_inlet, simplified]
  ns_cell4_frame [of u_cur, simplified] ns_cell4_frame [of u_s, simplified]
  ns_cell4_frame [of u_n, simplified] ns_cell4_frame [of u_n1, simplified]
  ns_cell4_frame [of p_cur, simplified] ns_cell4_frame [of phi, simplified]
  ns_cell4_frame [of C_D, simplified] ns_cell4_frame [of C_L, simplified]
  ns_cell4_frame [of t_u, simplified] ns_cell4_frame [of t_p, simplified]
  ns_cell4_frame [of p_diff, simplified] ns_cell4_frame [of stdout, simplified]

lemma ns_cell9_ok:
  assumes "raised s = None" and "2 \<le> length (V_dof_coordinates E)"
  shows "ns_cell9 E s =
     s\<lparr>calls := calls s @ function_space_calls @ ''u_inlet.interpolate'' # boundary_condition_calls,
       inlet_velocity := \<lparr>t = t_now s\<rparr>,
       u_inlet := inlet_dofs E (t_now s)\<rparr>"
  using assms
  by (simp add: ns_cell9_def do_calls_ok call_ok interpolate_inlet_def InletVelocity_init_def
      assign_Inr [where v = "inlet_dofs E (t_now s)"] interpolate_inlet_value)

lemma ns_cell8_ok:
  "raised s = None \<Longrightarrow> ns_cell8 s = s\<lparr>calls := calls s @ parameter_calls, t_now := 0\<rparr>"
  by (simp add: ns_cell8_def do_calls_ok)

lemma ns_cell10_ok:
  "raised s = None \<Longrightarrow>
   ns_cell10 E s =
     s\<lparr>calls := calls s @ velocity_function_calls @ pressure_function_calls,
       u_cur := replicate (V_ndofs E) 0, u_s := replicate (V_ndofs E) 0,
       u_n := replicate (V_ndofs E) 0, u_n1 := replicate (V_ndofs E) 0,
       p_cur := replicate (Q_ndofs E) 0, phi := replicate (Q_ndofs E) 0\<rparr>"
  by (simp add: ns_cell10_def do_calls_ok)

lemma ns_cell15_ok:
  "raised s = None \<Longrightarrow>
   ns_cell15 E m s =
     (if comm_rank E = 0
      then s\<lparr>calls := calls s @ drag_lift_form_calls, C_D := replicate m 0,
             C_L := replicate m 0, t_u := replicate m 0, t_p := replicate m 0\<rparr>
      else s\<lparr>calls := calls s @ drag_lift_form_calls\<rparr>)"
  by (simp add: ns_cell15_def do_calls_ok py_if_def)

lemma ns_cell16_ok:
  "raised s = None \<Longrightarrow>
   ns_cell16 E m s =
     (if comm_rank E = 0
      then s\<lparr>calls := calls s @ probe_calls, p_diff := replicate m 0\<rparr>
      else s\<lparr>calls := calls s @ probe_calls\<rparr>)"
  by (simp add: ns_cell16_def do_calls_ok py_if_def)

lemma ns_setup_fields:
  assumes "volumes_ok E" and "2 \<le> length (V_dof_coordinates E)"
  shows "raised (ns_setup E m) = None"
    and "t_now (ns_setup E m) = 0"
    and "inlet_velocity (ns_setup E m) = \<lparr>t = 0\<rparr>"
    and "u_inlet (ns_setup E m) = inlet_dofs E 0"
    and "u_cur (ns_setup E m) = replicate (V_ndofs E) 0"
    and "u_s (ns_setup E m) = replicate (V_ndofs E) 0"
    and "u_n (ns_setup E m) = replicate (V_ndofs E) 0"
    and "u_n1 (ns_setup E m) = replicate (V_ndofs E) 0"
    and "p_cur (ns_setup E m) = replicate (Q_ndofs E) 0"
    and "phi (ns_setup E m) = replicate (Q_ndofs E) 0"
    and "C_D (ns_setup E m) = (if comm_rank E = 0 then replicate m 0 else [])"
    and "C_L (ns_setup E m) = (if comm_rank E = 0 then replicate m 0 else [])"
    and "t_u (ns_setup E m) = (if comm_rank E = 0 then replicate m 0 else [])"
    and "t_p (ns_setup E m) = (if comm_rank E = 0 then replicate m 0 else [])"
    and "p_diff (ns_setup E m) = (if comm_rank E = 0 then replicate m 0 else [])"
    and "stdout (ns_setup E m) = []"
proof -
  define S3 where "S3 = ns_cell3 E (ns_cell2 E (ns_cell1 E ns_start))"
  define S4 where "S4 = ns_cell4 E S3"
  define S9 where "S9 = ns_cell9 E (ns_cell8 (ns_cell7 (ns_cell6 E (ns_cell5 E S4))))"
  define S14 where "S14 = ns_cell14 (ns_cell13 (ns_cell12 (ns_cell11 (ns_cell10 E S9))))"
  have S3: "raised S3 = None" "stdout S3 = []" "C_D S3 = []" "C_L S3 = []" "t_u S3 = []"
    "t_p S3 = []" "p_diff S3 = []"
    using assms(1)
    by (simp_all add: S3_def ns_start_eq ns_cell1_def ns_cell2_def ns_cell3_ok call_ok
        py_if_do_calls split del: if_split)
       (simp_all split: if_split)
  have S4: "raised S4 = None" "stdout S4 = []" "C_D S4 = []" "C_L S4 = []" "t_u S4 = []"
    "t_p S4 = []" "p_diff S4 = []"
    by (simp_all add: S4_def ns_cell4_fields S3)
  have S9: "S9 = S4\<lparr>calls := calls S9, t_now := 0, inlet_velocity := \<lparr>t = 0\<rparr>,
      u_inlet := inlet_dofs E 0\<rparr>"
    unfolding S9_def using assms(2) S4
    by (simp add: ns_cell5_def ns_cell6_def ns_cell7_def ns_cell8_ok ns_cell9_ok do_calls_ok
        py_if_do_calls split del: if_split)
  have r9: "raised S9 = None" by (subst S9) (simp add: S4)
  have S14: "S14 = S9\<lparr>calls := calls S14,
      u_cur := replicate (V_ndofs E) 0, u_s := replicate (V_ndofs E) 0,
      u_n := replicate (V_ndofs E) 0, u_n1 := replicate (V_ndofs E) 0,
      p_cur := replicate (Q_ndofs E) 0, phi := replicate (Q_ndofs E) 0\<rparr>"
    unfolding S14_def using r9
    by (simp add: ns_cell10_ok ns_cell11_def ns_cell12_def ns_cell13_def ns_cell14_def
        do_calls_ok)
  have r14: "raised S14 = None" by (subst S14) (simp add: r9)
  have chain: "ns_setup E m = ns_cell16 E m (ns_cell15 E m S14)"
    by (simp add: ns_setup_def S14_def S9_def S4_def S3_def)
  have eq: "ns_setup E m =
     S14\<lparr>calls := calls (ns_setup E m),
        C_D := (if comm_rank E = 0 then replicate m 0 else C_D S14),
        C_L := (if comm_rank E = 0 then replicate m 0 else C_L S14),
        t_u := (if comm_rank E = 0 then replicate m 0 else t_u S14),
        t_p := (if comm_rank E = 0 then replicate m 0 else t_p S14),
        p_diff := (if comm_rank E = 0 then replicate m 0 else p_diff S14)\<rparr>"
    unfolding chain using r14
    by (cases "comm_rank E = 0") (simp_all add: ns_cell15_ok ns_cell16_ok)
  have a14: "stdout S14 = []" "C_D S14 = []" "C_L S14 = []" "t_u S14 = []" "t_p S14 = []"
    "p_diff S14 = []" "t_now S14 = 0" "inlet_velocity S14 = \<lparr>t = 0\<rparr>"
    "u_inlet S14 = inlet_dofs E 0"
    by (subst S14, subst S9, simp add: S4)+
  have b14: "u_cur S14 = replicate (V_ndofs E) 0" "u_s S14 = replicate (V_ndofs E) 0"
    "u_n S14 = replicate (V_ndofs E) 0" "u_n1 S14 = replicate (V_ndofs E) 0"
    "p_cur S14 = replicate (Q_ndofs E) 0" "phi S14 = replicate (Q_ndofs E) 0"
    by (subst S14, simp)+
  show "raised (ns_setup E m) = None" by (subst eq) (simp add: r14)
  show "t_now (ns_setup E m) = 0" by (subst eq) (simp add: a14)
  show "inlet_velocity (ns_setup E m) = \<lparr>t = 0\<rparr>" by (subst eq) (simp add: a14)
  show "u_inlet (ns_setup E m) = inlet_dofs E 0" by (subst eq) (simp add: a14)
  show "u_cur (ns_setup E m) = replicate (V_ndofs E) 0" by (subst eq) (simp add: b14)
  show "u_s (ns_setup E m) = replicate (V_ndofs E) 0" by (subst eq) (simp add: b14)
  show "u_n (ns_setup E m) = replicate (V_ndofs E) 0" by (subst eq) (simp add: b14)
  show "u_n1 (ns_setup E m) = replicate (V_ndofs E) 0" by (subst eq) (simp add: b14)
  show "p_cur (ns_setup E m) = replicate (Q_ndofs E) 0" by (subst eq) (simp add: b14)
  show "phi (ns_setup E m) = replicate (Q_ndofs E) 0" by (subst eq) (simp add: b14)
  show "C_D (ns_setup E m) = (if comm_rank E = 0 then replicate m 0 else [])"
    by (subst eq) (simp add: a14)
  show "C_L (ns_setup E m) = (if comm_rank E = 0 then replicate m 0 else [])"
    by (subst eq) (simp add: a14)
  show "t_u (ns_setup E m) = (if comm_rank E = 0 then replicate m 0 else [])"
    by (subst eq) (simp add: a14)
  show "t_p (ns_setup E m) = (if comm_rank E = 0 then replicate m 0 else [])"
    by (subst eq) (simp add: a14)
  show "p_diff (ns_setup E m) = (if comm_rank E = 0 then replicate m 0 else [])"
    by (subst eq) (simp add: a14)
  show "stdout (ns_setup E m) = []" by (subst eq) (simp add: a14)
qed

lemma ns_setup_bad:
  assumes "\<not> volumes_ok E"
  shows "raised (ns_setup E m) = Some AssertionError" and "stdout (ns_setup E m) = []"
proof -
  define S3 where "S3 = ns_cell3 E (ns_cell2 E (ns_cell1 E ns_start))"
  have rk: "comm_rank E = model_rank" using assms by (simp add: volumes_ok_def)
  have S3: "raised S3 = Some AssertionError" "stdout S3 = []"
    using assms rk
    by (simp_all add: S3_def ns_start_eq ns_cell1_def ns_cell2_def ns_cell3_bad call_ok
        do_calls_ok)
  have "\<exists>cs. emits (run_all [ns_cell4 E, ns_cell5 E, ns_cell6 E, ns_cell7,
      ns_cell8, ns_cell9 E, ns_cell10 E, ns_cell11, ns_cell12, ns_cell13, ns_cell14,
      ns_cell15 E m, ns_cell16 E m]) cs"
    unfolding ns_cell4_def ns_cell5_def ns_cell6_def ns_cell7_def ns_cell8_def ns_cell9_def
      ns_cell10_def ns_cell11_def ns_cell12_def ns_cell13_def ns_cell14_def ns_cell15_def
      ns_cell16_def
    by (rule exI, (rule emits_intros emits_map emits_tag_boundary emits_interpolate_inlet | simp)+)
  then obtain cs where "emits (run_all [ns_cell4 E, ns_cell5 E, ns_cell6 E, ns_cell7,
      ns_cell8, ns_cell9 E, ns_cell10 E, ns_cell11, ns_cell12, ns_cell13, ns_cell14,
      ns_cell15 E m, ns_cell16 E m]) cs" ..
  from emits_stopped [OF this, of S3]
  have "ns_setup E m = S3"
    using S3 by (simp add: ns_setup_def S3_def)
  then show "raised (ns_setup E m) = Some AssertionError" and "stdout (ns_setup E m) = []"
    using S3 by simp_all
qed

section \<open>Properties of the nonlinear Poisson notebook\<close>

text \<open>
  C1. The cell that solves the nonlinear problem prints the iteration count exactly py_if
  the solver's flag is true; py_if the flag is false the cell stops at the assertion with
  \<open>AssertionError\<close> and prints nothing.
\<close>

theorem poisson_cell7_checks_converged:
  assumes "raised s = None" and "solver_solve E (uh s) = ((k, c), vs)"
  shows "stdout (poisson_cell7 E s) = (if c then stdout s @ [Number_of_interations k] else stdout s)
       \<and> raised (poisson_cell7 E s) = (if c then None else Some AssertionError)"
  using assms
  by (simp add: poisson_cell7_def do_calls_ok py_assert_def py_print_def)

theorem poisson_cell7_checks_converged_witness:
  "stdout (poisson_cell7 (example_poisson_lib True) poisson_start) = [Number_of_interations 8]
   \<and> raised (poisson_cell7 (example_poisson_lib True) poisson_start) = None
   \<and> stdout (poisson_cell7 (example_poisson_lib False) poisson_start) = []
   \<and> raised (poisson_cell7 (example_poisson_lib False) poisson_start) = Some AssertionError"
  using poisson_cell7_checks_converged [of poisson_start "example_poisson_lib True" 8 True "[1, 2, 3, 4]"]
    poisson_cell7_checks_converged [of poisson_start "example_poisson_lib False" 8 False "[1, 2, 3, 4]"]
  by (simp add: poisson_start_def start_def run.defs example_poisson_lib_def)

end
